theory Spec2Isabelle
  imports Complex_Main "HOL-Library.Log_Nat"
begin

section \<open>Data model\<close>

text \<open>
  The Go sources compute prices, sizes and PnL in \<^verbatim>\<open>float64\<close>. They are modelled
  here as exact \<^typ>\<open>real\<close> numbers: rounding, infinities and NaN are outside the model.
  In particular a division by a zero entry price, which yields an infinity or NaN in Go,
  is 0 in HOL; every numeric statement below that divides by an entry price assumes it
  non-zero. Go's \<^verbatim>\<open>int\<close> and \<^verbatim>\<open>int64\<close> values are \<^typ>\<open>int\<close>; the one place where
  the sources do arithmetic that can leave the 64-bit range (durations) writes the
  wrap-around out. The two PnL computations, where rounding decides whether two results
  are equal, are modelled a second time with the rounding of \<^verbatim>\<open>float64\<close>, in the
  section on float64 arithmetic.
\<close>

text \<open>
  Modelled from the spec: the declaration of \<^verbatim>\<open>exchange.SignalType\<close> and of its constants
  \<^verbatim>\<open>SignalLong\<close> and \<^verbatim>\<open>SignalShort\<close> is not among the sources. The spec gives a
  signal a direction \<^verbatim>\<open>Long | Short\<close> and calls all other values non-actionable; the
  code compares against the two constants only.
\<close>

datatype SignalType = SignalLong | SignalShort | SignalOther int

text \<open>
  Modelled from the spec: the declaration of \<^verbatim>\<open>exchange.Signal\<close> is not among the
  sources; its fields are those the code reads and the generated front-end model lists.
\<close>

record Signal =
  Index :: int
  Type :: SignalType
  Price :: real
  Time :: int
  Reason :: string

text \<open>
  Modelled from the spec: the declaration of \<^verbatim>\<open>exchange.Position\<close> is not among the
  sources; its fields are those the code reads and writes and the generated front-end
  model lists.
\<close>

record Position =
  EntryIndex :: int
  EntryPrice :: real
  EntryTime :: int
  ExitIndex :: int
  ExitPrice :: real
  ExitTime :: int
  Side :: string
  Size :: real
  PnL :: real
  PnLPercentage :: real
  IsOpen :: bool
  ExitReason :: string
  MaxDrawdown :: real
  MaxProfit :: real

text \<open>\<^verbatim>\<open>position.ExecutionConfig\<close> (manager.go).\<close>

record ExecutionConfig =
  PositionSize :: real
  TradeDirection :: string
  TakeProfitPercent :: real
  StopLossPercent :: real

text \<open>
  \<^verbatim>\<open>hyperliquid.Candle\<close> belongs to an external library; only the two fields the
  modelled code reads are kept. The closing price is carried as text.
\<close>

record Candle =
  Timestamp :: int
  Close :: string

text \<open>A Go run-time panic is a value of the model.\<close>

datatype error = IndexOutOfRange

section \<open>Backtester (backtester.go)\<close>

text \<open>
  \<^verbatim>\<open>closePosition\<close> writes the exit fields and the PnL into the position. Reading
  \<^verbatim>\<open>candles[exitIndex]\<close> panics when the index is negative or not below the length.
  The PnL is the exact value of the source's expression here; what \<^verbatim>\<open>float64\<close> makes
  of the same expression is \<open>Backtester_closePosition_PnL_float64\<close> below.
\<close>

definition Backtester_closePosition ::
  "Candle list \<Rightarrow> Position \<Rightarrow> int \<Rightarrow> real \<Rightarrow> string \<Rightarrow> error + Position" where
  "Backtester_closePosition candles position exitIndex exitPrice reason =
     (if 0 \<le> exitIndex \<and> exitIndex < int (length candles) then
        let position = position\<lparr>ExitIndex := exitIndex, ExitPrice := exitPrice,
                                 ExitTime := Timestamp (candles ! nat exitIndex),
                                 IsOpen := False, ExitReason := reason\<rparr>;
            priceDiff = (if Side position = ''long'' then exitPrice - EntryPrice position
                         else EntryPrice position - exitPrice);
            position = position\<lparr>PnLPercentage := (priceDiff / EntryPrice position) * 100\<rparr>
        in Inr (position\<lparr>PnL := Size position * EntryPrice position
                                      * (PnLPercentage position / 100)\<rparr>)
      else Inl IndexOutOfRange)"

text \<open>
  The position literal of \<^verbatim>\<open>simulatePositions\<close>: the six fields the source sets, every
  other field at Go's zero value.
\<close>

definition newPosition :: "Signal \<Rightarrow> string \<Rightarrow> ExecutionConfig \<Rightarrow> Position" where
  "newPosition signal side config =
     \<lparr>EntryIndex = Index signal, EntryPrice = Price signal, EntryTime = Time signal,
      ExitIndex = 0, ExitPrice = 0, ExitTime = 0, Side = side, Size = PositionSize config,
      PnL = 0, PnLPercentage = 0, IsOpen = True, ExitReason = '''',
      MaxDrawdown = 0, MaxProfit = 0\<rparr>"

text \<open>
  One iteration of the loop over the signals. The loop state is the ledger
  \<^verbatim>\<open>positions\<close> and the pointer \<^verbatim>\<open>currentPosition\<close> (\<open>None\<close> for nil). The ledger
  receives a copy of the closed position, so no object is shared.
\<close>

definition simulate_step ::
  "Candle list \<Rightarrow> ExecutionConfig \<Rightarrow> Position list \<times> Position option \<Rightarrow> Signal
     \<Rightarrow> error + (Position list \<times> Position option)" where
  "simulate_step candles config st signal =
     (case st of (positions, currentPosition) \<Rightarrow>
        if Type signal \<noteq> SignalLong \<and> Type signal \<noteq> SignalShort then Inr st
        else
          let side = (if Type signal = SignalShort then ''short'' else ''long'') in
          if (TradeDirection config = ''long'' \<and> side = ''short'') \<or>
             (TradeDirection config = ''short'' \<and> side = ''long'') then Inr st
          else
            (case (case currentPosition of
                     None \<Rightarrow> Inr positions
                   | Some cp \<Rightarrow>
                       if IsOpen cp then
                         (case Backtester_closePosition candles cp (Index signal) (Price signal)
                                 ''Trend Reversal'' of
                            Inl e \<Rightarrow> Inl e
                          | Inr cp' \<Rightarrow> Inr (positions @ [cp']))
                       else Inr positions) of
               Inl e \<Rightarrow> Inl e
             | Inr positions' \<Rightarrow> Inr (positions', Some (newPosition signal side config))))"

fun simulate_loop ::
  "Candle list \<Rightarrow> ExecutionConfig \<Rightarrow> Position list \<times> Position option \<Rightarrow> Signal list
     \<Rightarrow> error + (Position list \<times> Position option)" where
  "simulate_loop candles config st [] = Inr st"
| "simulate_loop candles config st (signal # signals) =
     (case simulate_step candles config st signal of
        Inl e \<Rightarrow> Inl e
      | Inr st' \<Rightarrow> simulate_loop candles config st' signals)"

text \<open>
  \<^verbatim>\<open>simulatePositions\<close>: the loop, then the close at the end of the period.
  \<^verbatim>\<open>parseFloat\<close> wraps \<^verbatim>\<open>strconv.ParseFloat\<close> of Go's standard library and is a
  parameter of the model. \<^verbatim>\<open>candles[len(candles)-1]\<close> panics on an empty sequence.
\<close>

definition simulatePositions ::
  "(string \<Rightarrow> real) \<Rightarrow> Candle list \<Rightarrow> Signal list \<Rightarrow> ExecutionConfig
     \<Rightarrow> error + Position list" where
  "simulatePositions parseFloat candles signals config =
     (case simulate_loop candles config ([], None) signals of
        Inl e \<Rightarrow> Inl e
      | Inr (positions, currentPosition) \<Rightarrow>
          (case currentPosition of
             None \<Rightarrow> Inr positions
           | Some cp \<Rightarrow>
               if IsOpen cp then
                 if candles = [] then Inl IndexOutOfRange
                 else
                   let lastCandle = candles ! (length candles - 1);
                       lastPrice = parseFloat (Close lastCandle)
                   in (case Backtester_closePosition candles cp (int (length candles) - 1)
                               lastPrice ''End of Period'' of
                         Inl e \<Rightarrow> Inl e
                       | Inr cp' \<Rightarrow> Inr (positions @ [cp']))
               else Inr positions))"

subsection \<open>Metrics\<close>

text \<open>
  \<^verbatim>\<open>time.Duration\<close> is a signed 64-bit count of nanoseconds; Go's integer arithmetic
  wraps around and its division truncates towards zero.
\<close>

definition int64 :: "int \<Rightarrow> int" where
  "int64 x = (x + 2 ^ 63) mod 2 ^ 64 - 2 ^ 63"

definition go_quot :: "int \<Rightarrow> int \<Rightarrow> int" where
  "go_quot a b = sgn a * sgn b * (\<bar>a\<bar> div \<bar>b\<bar>)"

record backtestMetrics =
  totalPnL :: real
  totalPnLPercent :: real
  winRate :: real
  totalTrades :: int
  winningTrades :: int
  losingTrades :: int
  averageWin :: real
  averageLoss :: real
  profitFactor :: real
  maxDrawdown :: real
  maxDrawdownPercent :: real
  sharpeRatio :: real
  longestWinStreak :: int
  longestLossStreak :: int
  averageHoldTime :: int

definition zeroMetrics :: backtestMetrics where
  "zeroMetrics =
     \<lparr>totalPnL = 0, totalPnLPercent = 0, winRate = 0, totalTrades = 0, winningTrades = 0,
      losingTrades = 0, averageWin = 0, averageLoss = 0, profitFactor = 0, maxDrawdown = 0,
      maxDrawdownPercent = 0, sharpeRatio = 0, longestWinStreak = 0, longestLossStreak = 0,
      averageHoldTime = 0\<rparr>"

text \<open>The local variables of \<^verbatim>\<open>calculateMetrics\<close> that live across its loop.\<close>

record metricsLocals =
  result :: backtestMetrics
  totalWin :: real
  totalLoss :: real
  winStreak :: int
  lossStreak :: int
  currentWinStreak :: int
  currentLossStreak :: int
  totalHoldTime :: int
  totalCapitalInvested :: real

definition zeroLocals :: metricsLocals where
  "zeroLocals =
     \<lparr>result = zeroMetrics, totalWin = 0, totalLoss = 0, winStreak = 0, lossStreak = 0,
      currentWinStreak = 0, currentLossStreak = 0, totalHoldTime = 0,
      totalCapitalInvested = 0\<rparr>"

text \<open>The body of the loop over the ledger; an open position is skipped.\<close>

definition metrics_step :: "metricsLocals \<Rightarrow> Position \<Rightarrow> metricsLocals" where
  "metrics_step l pos =
     (if IsOpen pos then l
      else
        let r = result l;
            r = r\<lparr>totalTrades := totalTrades r + 1\<rparr>;
            r = r\<lparr>totalPnL := totalPnL r + PnL pos\<rparr>;
            capitalInvested = Size pos * EntryPrice pos;
            l = l\<lparr>totalCapitalInvested := totalCapitalInvested l + capitalInvested\<rparr>;
            (r, l) =
              (if PnL pos > 0 then
                 let r = r\<lparr>winningTrades := winningTrades r + 1\<rparr>;
                     l = l\<lparr>totalWin := totalWin l + PnL pos\<rparr>;
                     l = l\<lparr>currentWinStreak := currentWinStreak l + 1\<rparr>;
                     l = l\<lparr>currentLossStreak := 0\<rparr>
                 in (r, if currentWinStreak l > winStreak l
                        then l\<lparr>winStreak := currentWinStreak l\<rparr> else l)
               else
                 let r = r\<lparr>losingTrades := losingTrades r + 1\<rparr>;
                     l = l\<lparr>totalLoss := totalLoss l + - PnL pos\<rparr>;
                     l = l\<lparr>currentLossStreak := currentLossStreak l + 1\<rparr>;
                     l = l\<lparr>currentWinStreak := 0\<rparr>
                 in (r, if currentLossStreak l > lossStreak l
                        then l\<lparr>lossStreak := currentLossStreak l\<rparr> else l));
            r = (if MaxDrawdown pos < maxDrawdown r
                 then r\<lparr>maxDrawdown := MaxDrawdown pos\<rparr> else r);
            holdTime = int64 (int64 (ExitTime pos - EntryTime pos) * 1000000)
        in l\<lparr>result := r, totalHoldTime := int64 (totalHoldTime l + holdTime)\<rparr>)"

fun metrics_loop :: "metricsLocals \<Rightarrow> Position list \<Rightarrow> metricsLocals" where
  "metrics_loop l [] = l"
| "metrics_loop l (pos # positions) = metrics_loop (metrics_step l pos) positions"

definition calculateMetrics :: "Position list \<Rightarrow> backtestMetrics" where
  "calculateMetrics positions =
     (if length positions = 0 then zeroMetrics
      else
        let l = metrics_loop zeroLocals positions;
            r = result l;
            r = (if totalTrades r > 0 then
                   let r = r\<lparr>winRate := (of_int (winningTrades r) / of_int (totalTrades r)) * 100\<rparr>;
                       r = r\<lparr>averageHoldTime := go_quot (totalHoldTime l) (totalTrades r)\<rparr>;
                       avgCapitalInvested = totalCapitalInvested l / of_int (totalTrades r)
                   in if avgCapitalInvested > 0
                      then r\<lparr>totalPnLPercent := (totalPnL r / avgCapitalInvested) * 100\<rparr>
                      else r
                 else r);
            r = (if winningTrades r > 0
                 then r\<lparr>averageWin := totalWin l / of_int (winningTrades r)\<rparr> else r);
            r = (if losingTrades r > 0
                 then r\<lparr>averageLoss := totalLoss l / of_int (losingTrades r)\<rparr> else r);
            r = (if totalLoss l > 0
                 then r\<lparr>profitFactor := totalWin l / totalLoss l\<rparr> else r)
        in r\<lparr>longestWinStreak := winStreak l, longestLossStreak := lossStreak l\<rparr>)"

subsection \<open>Run\<close>

text \<open>
  \<^verbatim>\<open>strategy.Visualization\<close>; its labels and line segments are only copied by the
  backtester and stay abstract.
\<close>

record ('label, 'line) Visualization =
  TrendLines :: "real list"
  TrendColors :: "string list"
  Directions :: "int list"
  Labels :: "'label list"
  Lines :: "'line list"

text \<open>
  \<^verbatim>\<open>BacktestResult\<close>. The flattened copies of the visualization fields carry the
  names of the source with the suffix \<open>_flat\<close>, to keep them apart from the fields of
  \<^verbatim>\<open>Visualization\<close>, and \<^verbatim>\<open>MaxDrawdown\<close> is \<open>MaxDrawdown_total\<close>, apart from the
  field of a position; a nil slice is the empty list.
\<close>

record ('label, 'line) BacktestResult =
  StrategyName :: string
  StrategyVersion :: string
  Positions :: "Position list"
  Signals :: "Signal list"
  Visualization :: "('label, 'line) Visualization option"
  TrendLines_flat :: "real list"
  TrendColors_flat :: "string list"
  Directions_flat :: "int list"
  Labels_flat :: "'label list"
  Lines_flat :: "'line list"
  TotalPnL :: real
  TotalPnLPercent :: real
  WinRate :: real
  TotalTrades :: int
  WinningTrades :: int
  LosingTrades :: int
  AverageWin :: real
  AverageLoss :: real
  ProfitFactor :: real
  MaxDrawdown_total :: real
  MaxDrawdownPercent :: real
  SharpeRatio :: real
  LongestWinStreak :: int
  LongestLossStreak :: int
  AverageHoldTime :: int

text \<open>
  \<^verbatim>\<open>Run\<close>. A panic in \<^verbatim>\<open>simulatePositions\<close> ends the call; nothing in \<^verbatim>\<open>Run\<close>
  recovers from it.
\<close>

definition Run ::
  "(string \<Rightarrow> real) \<Rightarrow> Candle list \<Rightarrow> Signal list \<Rightarrow> ('label, 'line) Visualization option
     \<Rightarrow> ExecutionConfig \<Rightarrow> string \<Rightarrow> string \<Rightarrow> error + ('label, 'line) BacktestResult" where
  "Run parseFloat candles signals visualization config strategyName strategyVersion =
     (case simulatePositions parseFloat candles signals config of
        Inl e \<Rightarrow> Inl e
      | Inr positions \<Rightarrow>
          let metrics = calculateMetrics positions;
              res = \<lparr>StrategyName = strategyName, StrategyVersion = strategyVersion,
                     Positions = positions, Signals = signals, Visualization = visualization,
                     TrendLines_flat = [], TrendColors_flat = [], Directions_flat = [],
                     Labels_flat = [], Lines_flat = [],
                     TotalPnL = totalPnL metrics, TotalPnLPercent = totalPnLPercent metrics,
                     WinRate = winRate metrics, TotalTrades = totalTrades metrics,
                     WinningTrades = winningTrades metrics, LosingTrades = losingTrades metrics,
                     AverageWin = averageWin metrics, AverageLoss = averageLoss metrics,
                     ProfitFactor = profitFactor metrics, MaxDrawdown_total = maxDrawdown metrics,
                     MaxDrawdownPercent = maxDrawdownPercent metrics,
                     SharpeRatio = sharpeRatio metrics,
                     LongestWinStreak = longestWinStreak metrics,
                     LongestLossStreak = longestLossStreak metrics,
                     AverageHoldTime = averageHoldTime metrics\<rparr>
          in Inr (case visualization of
                    None \<Rightarrow> res
                  | Some v \<Rightarrow> res\<lparr>TrendLines_flat := TrendLines v, TrendColors_flat := TrendColors v,
                                     Directions_flat := Directions v, Labels_flat := Labels v,
                                     Lines_flat := Lines v\<rparr>))"

section \<open>Live objects\<close>

text \<open>
  In the live path positions are Go objects reached through pointers, and the mock
  adapter keeps the very pointer it hands out. The model therefore has an explicit
  store: \<open>heap\<close> maps an address to the position object at that address and
  \<open>allocated\<close> is the next unused address. \<^verbatim>\<open>time.Now().UnixMilli()\<close> reads a clock
  the program does not control: \<open>clock\<close> lists the successive readings and
  \<open>clockReads\<close> counts the readings made so far. Output written with
  \<^verbatim>\<open>fmt.Printf\<close> is not modelled.
\<close>

record World =
  heap :: "nat \<Rightarrow> Position"
  allocated :: nat
  clock :: "nat \<Rightarrow> int"
  clockReads :: nat

definition time_Now_UnixMilli :: "World \<Rightarrow> int \<times> World" where
  "time_Now_UnixMilli w = (clock w (clockReads w), w\<lparr>clockReads := clockReads w + 1\<rparr>)"

definition new_Position :: "Position \<Rightarrow> World \<Rightarrow> nat \<times> World" where
  "new_Position v w =
     (allocated w, w\<lparr>heap := (heap w)(allocated w := v), allocated := allocated w + 1\<rparr>)"

definition store_Position :: "nat \<Rightarrow> (Position \<Rightarrow> Position) \<Rightarrow> World \<Rightarrow> World" where
  "store_Position p f w = w\<lparr>heap := (heap w)(p := f (heap w p))\<rparr>"

text \<open>The position literal of both adapters, every field not named at Go's zero value.\<close>

definition adapterPosition :: "int \<Rightarrow> string \<Rightarrow> real \<Rightarrow> Position" where
  "adapterPosition now side size' =
     \<lparr>EntryIndex = 0, EntryPrice = 0, EntryTime = now, ExitIndex = 0, ExitPrice = 0,
      ExitTime = 0, Side = side, Size = size', PnL = 0, PnLPercentage = 0, IsOpen = True,
      ExitReason = '''', MaxDrawdown = 0, MaxProfit = 0\<rparr>"

section \<open>Exchange adapters\<close>

subsection \<open>MockAdapter\<close>

record MockAdapter =
  positions :: "string \<rightharpoonup> nat"
  balance :: real
  address :: string

definition NewMockAdapter :: "real \<Rightarrow> MockAdapter" where
  "NewMockAdapter initialBalance =
     \<lparr>positions = Map.empty, balance = initialBalance, address = ''mock-address''\<rparr>"

definition MockAdapter_OpenPosition ::
  "MockAdapter \<Rightarrow> string \<Rightarrow> string \<Rightarrow> real \<Rightarrow> int \<Rightarrow> World
     \<Rightarrow> (string + nat) \<times> MockAdapter \<times> World" where
  "MockAdapter_OpenPosition m symbol side size' leverage w =
     (let (now, w) = time_Now_UnixMilli w;
          (pos, w) = new_Position (adapterPosition now side size') w
      in (Inr pos, m\<lparr>positions := (positions m)(symbol \<mapsto> pos)\<rparr>, w))"

definition MockAdapter_ClosePosition ::
  "MockAdapter \<Rightarrow> string \<Rightarrow> real \<Rightarrow> World \<Rightarrow> string option \<times> MockAdapter \<times> World" where
  "MockAdapter_ClosePosition m symbol size' w =
     (case positions m symbol of
        Some pos \<Rightarrow>
          let w = store_Position pos (\<lambda>v. v\<lparr>IsOpen := False\<rparr>) w;
              (now, w) = time_Now_UnixMilli w;
              w = store_Position pos (\<lambda>v. v\<lparr>ExitTime := now\<rparr>) w
          in (None, m\<lparr>positions := (positions m)(symbol := None)\<rparr>, w)
      | None \<Rightarrow> (None, m, w))"

subsection \<open>HyperliquidAdapter\<close>

text \<open>
  The adapter talks to the venue through the clients of an external library. What a
  client answers is an input of the model: each client is the record of its answers,
  one function per library call the adapter makes (the context argument is left out;
  an answer \<open>Inl\<close> or \<open>Some\<close> is the library's error). An order status carries at
  most a resting status, a fill (average price and total size, as text) or an error
  text. An asset position is the pair of its coin and its signed size \<^verbatim>\<open>Szi\<close>, as text.
\<close>

record OrderStatus =
  Resting :: "string option"
  Filled :: "(string \<times> string) option"
  Error :: "string option"

record Info =
  UserState :: "string \<Rightarrow> string + (string \<times> string) list"

record Exchange =
  UpdateLeverage :: "int \<Rightarrow> string \<Rightarrow> bool \<Rightarrow> string option"
  MarketOpen :: "string \<Rightarrow> bool \<Rightarrow> real \<Rightarrow> real \<Rightarrow> string + OrderStatus"
  SlippagePrice :: "string \<Rightarrow> bool \<Rightarrow> real \<Rightarrow> string + real"
  Order :: "string \<Rightarrow> bool \<Rightarrow> real \<Rightarrow> real \<Rightarrow> bool \<Rightarrow> string + OrderStatus"

text \<open>
  The fields \<^verbatim>\<open>exchange\<close> and \<^verbatim>\<open>address\<close> of the source carry the suffix \<open>_hl\<close>
  here, to keep them apart from the fields of the same name of the manager and of the
  mock adapter.
\<close>

record HyperliquidAdapter =
  info :: Info
  exchange_hl :: Exchange
  address_hl :: string

text \<open>
  Modelled from the spec: the declaration of \<^verbatim>\<open>exchange.OrderResponse\<close> is not among
  the sources; the code uses its fields \<^verbatim>\<open>Success\<close> and \<^verbatim>\<open>Message\<close>.
\<close>

record OrderResponse =
  Success :: bool
  Message :: string

definition parseOrderResponse :: "OrderStatus \<Rightarrow> OrderResponse" where
  "parseOrderResponse resp =
     (let out = \<lparr>Success = True, Message = ''''\<rparr> in
      case Resting resp of
        Some status \<Rightarrow> out\<lparr>Message := status\<rparr>
      | None \<Rightarrow>
          (case Filled resp of
             Some (avgPx, totalSz) \<Rightarrow>
               out\<lparr>Message := ''filled avgPx='' @ avgPx @ '' size='' @ totalSz\<rparr>
           | None \<Rightarrow>
               (case Error resp of
                  Some msg \<Rightarrow> out\<lparr>Success := False, Message := msg\<rparr>
                | None \<Rightarrow> out)))"

definition HyperliquidAdapter_OpenPosition ::
  "HyperliquidAdapter \<Rightarrow> string \<Rightarrow> string \<Rightarrow> real \<Rightarrow> int \<Rightarrow> World
     \<Rightarrow> (string + nat) \<times> World" where
  "HyperliquidAdapter_OpenPosition h symbol side size' leverage w =
     (case UpdateLeverage (exchange_hl h) leverage symbol False of
        Some err \<Rightarrow> (Inl (''failed to set leverage: '' @ err), w)
      | None \<Rightarrow>
          let isBuy = (side = ''long'') in
          (case MarketOpen (exchange_hl h) symbol isBuy size' 0.05 of
             Inl err \<Rightarrow> (Inl (''failed to open position: '' @ err), w)
           | Inr resp \<Rightarrow>
               let orderResp = parseOrderResponse resp in
               if \<not> Success orderResp
               then (Inl (''position open failed: '' @ Message orderResp), w)
               else
                 let (now, w) = time_Now_UnixMilli w;
                     (pos, w) = new_Position (adapterPosition now side size') w
                 in (Inr pos, w)))"

text \<open>
  \<^verbatim>\<open>parseFloatSafe\<close> wraps \<^verbatim>\<open>strconv.ParseFloat\<close> like \<^verbatim>\<open>parseFloat\<close> and is the same
  parameter. The close touches neither the adapter nor any position object: it returns
  the error only. The loop over the asset positions stops at the first one for the coin.
\<close>

definition HyperliquidAdapter_ClosePosition ::
  "(string \<Rightarrow> real) \<Rightarrow> HyperliquidAdapter \<Rightarrow> string \<Rightarrow> real \<Rightarrow> string option" where
  "HyperliquidAdapter_ClosePosition parseFloat h symbol size' =
     (case UserState (info h) (address_hl h) of
        Inl err \<Rightarrow> Some (''failed to fetch position: '' @ err)
      | Inr assetPositions \<Rightarrow>
          (case find (\<lambda>assetPos. fst assetPos = symbol) assetPositions of
             None \<Rightarrow> Some (''position not found for '' @ symbol)
           | Some assetPos \<Rightarrow>
               let szi = parseFloat (snd assetPos) in
               if szi = 0 then Some (''no open position for '' @ symbol)
               else
                 let isBuy = (szi < 0);
                     positionSize = (if size' > 0 then size' else \<bar>szi\<bar>)
                 in (case SlippagePrice (exchange_hl h) symbol isBuy 0.05 of
                       Inl err \<Rightarrow> Some (''failed to get slippage price: '' @ err)
                     | Inr slippagePrice \<Rightarrow>
                         (case Order (exchange_hl h) symbol isBuy positionSize slippagePrice
                                 True of
                            Inl err \<Rightarrow> Some (''failed to close position: '' @ err)
                          | Inr resp \<Rightarrow>
                              let orderResp = parseOrderResponse resp in
                              if \<not> Success orderResp
                              then Some (''position close failed: '' @ Message orderResp)
                              else None))))"

subsection \<open>The Adapter interface\<close>

text \<open>
  The interface \<^verbatim>\<open>exchange.Adapter\<close> has the two implementations above; a call through
  the interface dispatches on the implementation.
\<close>

datatype Adapter = Mock MockAdapter | Hyperliquid HyperliquidAdapter

definition Adapter_OpenPosition ::
  "Adapter \<Rightarrow> string \<Rightarrow> string \<Rightarrow> real \<Rightarrow> int \<Rightarrow> World \<Rightarrow> (string + nat) \<times> Adapter \<times> World" where
  "Adapter_OpenPosition a symbol side size' leverage w =
     (case a of
        Mock m \<Rightarrow>
          let (r, m, w) = MockAdapter_OpenPosition m symbol side size' leverage w
          in (r, Mock m, w)
      | Hyperliquid h \<Rightarrow>
          let (r, w) = HyperliquidAdapter_OpenPosition h symbol side size' leverage w
          in (r, a, w))"

definition Adapter_ClosePosition ::
  "(string \<Rightarrow> real) \<Rightarrow> Adapter \<Rightarrow> string \<Rightarrow> real \<Rightarrow> World \<Rightarrow> string option \<times> Adapter \<times> World" where
  "Adapter_ClosePosition parseFloat a symbol size' w =
     (case a of
        Mock m \<Rightarrow>
          let (e, m, w) = MockAdapter_ClosePosition m symbol size' w
          in (e, Mock m, w)
      | Hyperliquid h \<Rightarrow> (HyperliquidAdapter_ClosePosition parseFloat h symbol size', a, w))"

section \<open>Position manager (manager.go)\<close>

text \<open>
  \<^verbatim>\<open>LiveStrategy\<close> is the one implementation of the interface \<^verbatim>\<open>LivePosition\<close>. Its
  field \<^verbatim>\<open>Position\<close> is a pointer (\<open>None\<close> for nil). The bound strategy and the cached
  visualization, which no modelled function reads, are left out.
\<close>

record LiveStrategy =
  ID :: string
  Config :: ExecutionConfig
  Symbol :: string
  Interval :: string
  IsRunning :: bool
  Position :: "nat option"
  LastCandleTime :: int

definition GetSymbol :: "LiveStrategy \<Rightarrow> string" where
  "GetSymbol l = Symbol l"

definition GetConfig :: "LiveStrategy \<Rightarrow> ExecutionConfig" where
  "GetConfig l = Config l"

definition GetPosition :: "LiveStrategy \<Rightarrow> nat option" where
  "GetPosition l = Position l"

definition SetPosition :: "LiveStrategy \<Rightarrow> nat option \<Rightarrow> LiveStrategy" where
  "SetPosition l pos = l\<lparr>Position := pos\<rparr>"

text \<open>
  The manager holds its adapter by reference; the adapter's state after a call is
  returned in the manager. In \<^verbatim>\<open>HandleSignal\<close> the inner \<open>case\<close> is the block
  that closes on a reversal: \<open>None\<close> is its early return on a signal of the side of
  the open position.
\<close>

record Manager =
  exchange :: Adapter
  leverage :: int

definition NewManager :: "Adapter \<Rightarrow> Manager" where
  "NewManager exchg = \<lparr>exchange = exchg, leverage = 10\<rparr>"

definition SetLeverage :: "Manager \<Rightarrow> int \<Rightarrow> Manager" where
  "SetLeverage m lev = m\<lparr>leverage := lev\<rparr>"

text \<open>
  The PnL that \<^verbatim>\<open>ClosePosition\<close> records is the exact value of the source's
  expression; what \<^verbatim>\<open>float64\<close> makes of it is \<open>Manager_ClosePosition_PnL_float64\<close>
  below.
\<close>

definition Manager_ClosePosition ::
  "(string \<Rightarrow> real) \<Rightarrow> Manager \<Rightarrow> LiveStrategy \<Rightarrow> real \<Rightarrow> string \<Rightarrow> World \<Rightarrow> Manager \<times> World" where
  "Manager_ClosePosition parseFloat m live price reason w =
     (case GetPosition live of
        None \<Rightarrow> (m, w)
      | Some pos \<Rightarrow>
          if \<not> IsOpen (heap w pos) then (m, w)
          else
            let (err, a, w) =
                  Adapter_ClosePosition parseFloat (exchange m) (GetSymbol live)
                    (Size (heap w pos)) w;
                m = m\<lparr>exchange := a\<rparr>
            in (case err of
                  Some e \<Rightarrow> (m, w)
                | None \<Rightarrow>
                    let w = store_Position pos (\<lambda>v. v\<lparr>IsOpen := False\<rparr>) w;
                        w = store_Position pos (\<lambda>v. v\<lparr>ExitPrice := price\<rparr>) w;
                        w = store_Position pos (\<lambda>v. v\<lparr>ExitReason := reason\<rparr>) w;
                        (now, w) = time_Now_UnixMilli w;
                        w = store_Position pos (\<lambda>v. v\<lparr>ExitTime := now\<rparr>) w;
                        pnl = (if Side (heap w pos) = ''long''
                               then (price - EntryPrice (heap w pos)) * Size (heap w pos)
                               else (EntryPrice (heap w pos) - price) * Size (heap w pos));
                        w = store_Position pos (\<lambda>v. v\<lparr>PnL := pnl\<rparr>) w
                    in (m, w)))"

definition Manager_HandleSignal ::
  "(string \<Rightarrow> real) \<Rightarrow> Manager \<Rightarrow> LiveStrategy \<Rightarrow> Signal \<Rightarrow> real \<Rightarrow> World
     \<Rightarrow> Manager \<times> LiveStrategy \<times> World" where
  "Manager_HandleSignal parseFloat m live signal price w =
     (let config = GetConfig live in
      if Type signal \<noteq> SignalLong \<and> Type signal \<noteq> SignalShort then (m, live, w)
      else
        let side = (if Type signal = SignalShort then ''short'' else ''long'') in
        if TradeDirection config = ''long'' \<and> side = ''short'' then (m, live, w)
        else if TradeDirection config = ''short'' \<and> side = ''long'' then (m, live, w)
        else
          let pos = GetPosition live in
          (case (case pos of
                   None \<Rightarrow> Some (m, w)
                 | Some p \<Rightarrow>
                     if IsOpen (heap w p) then
                       if Side (heap w p) = side then None
                       else Some (Manager_ClosePosition parseFloat m live price
                                    ''Trend Reversal'' w)
                     else Some (m, w)) of
             None \<Rightarrow> (m, live, w)
           | Some (m, w) \<Rightarrow>
               let (r, a, w) = Adapter_OpenPosition (exchange m) (GetSymbol live) side
                                 (PositionSize config) (leverage m) w;
                   m = m\<lparr>exchange := a\<rparr>
               in (case r of
                     Inl err \<Rightarrow> (m, live, w)
                   | Inr newPos \<Rightarrow>
                       let w = store_Position newPos (\<lambda>v. v\<lparr>EntryPrice := price\<rparr>) w
                       in (m, SetPosition live (Some newPos), w))))"

definition Manager_CheckTPSL ::
  "(string \<Rightarrow> real) \<Rightarrow> Manager \<Rightarrow> LiveStrategy \<Rightarrow> real \<Rightarrow> World \<Rightarrow> Manager \<times> World" where
  "Manager_CheckTPSL parseFloat m live currentPrice w =
     (case GetPosition live of
        None \<Rightarrow> (m, w)
      | Some pos \<Rightarrow>
          if \<not> IsOpen (heap w pos) then (m, w)
          else
            let config = GetConfig live;
                entry = EntryPrice (heap w pos);
                pnlPercent = (if Side (heap w pos) = ''long''
                              then ((currentPrice - entry) / entry) * 100
                              else ((entry - currentPrice) / entry) * 100)
            in
            if TakeProfitPercent config > 0 \<and> pnlPercent \<ge> TakeProfitPercent config
            then Manager_ClosePosition parseFloat m live currentPrice ''Take Profit'' w
            else if StopLossPercent config > 0 \<and> pnlPercent \<le> - StopLossPercent config
            then Manager_ClosePosition parseFloat m live currentPrice ''Stop Loss'' w
            else (m, w))"

section \<open>Engine (engine.go)\<close>

text \<open>
  Of the engine, \<^verbatim>\<open>StopStrategy\<close> is modelled, as the sequence of its effects: the
  lock, the cancellation of the task and the candle source are left out. The instance
  taken from the table is closed through the manager after it has left the table.
\<close>

record Engine =
  strategies :: "string \<rightharpoonup> LiveStrategy"
  positionMgr :: "Manager option"

definition StopStrategy ::
  "(string \<Rightarrow> real) \<Rightarrow> Engine \<Rightarrow> string \<Rightarrow> World \<Rightarrow> string option \<times> Engine \<times> World" where
  "StopStrategy parseFloat e ident w =
     (case strategies e ident of
        None \<Rightarrow> (Some (''strategy '' @ ident @ '' not found''), e, w)
      | Some state \<Rightarrow>
          let state = state\<lparr>IsRunning := False\<rparr>;
              e = e\<lparr>strategies := (strategies e)(ident := None)\<rparr>
          in (case (Position state, positionMgr e) of
                (Some p, Some mgr) \<Rightarrow>
                  if IsOpen (heap w p) then
                    let currentPrice = EntryPrice (heap w p);
                        (mgr, w) = Manager_ClosePosition parseFloat mgr state currentPrice
                                     ''Strategy Stopped'' w
                    in (None, e\<lparr>positionMgr := Some mgr\<rparr>, w)
                  else (None, e, w)
              | _ \<Rightarrow> (None, e, w)))"

section \<open>float64 arithmetic of the two PnL computations\<close>

text \<open>
  Where the rounding of \<^verbatim>\<open>float64\<close> decides a property, the arithmetic lines of the
  source are modelled a second time, with the rounding of IEEE 754 binary64 written
  out. A finite \<^verbatim>\<open>float64\<close> value is the rational number it denotes. An operation
  yields its exact result rounded to the nearest value with a significand of 53 bits,
  ties to the even significand; the exponent of the least bit is at least -1074
  (gradual underflow).

  \<open>ilog2 x\<close> is the exponent of a positive \<open>x\<close>, the integer \<open>e\<close> with
  \<open>2^e \<le> x < 2^(e+1)\<close>, found from the bit lengths of numerator and denominator;
  \<open>rne\<close> rounds to the nearest integer, ties to even.
\<close>

definition ilog2 :: "rat \<Rightarrow> int" where
  "ilog2 x = (case quotient_of x of (a, b) \<Rightarrow>
                let d = bitlen a - bitlen b in if 2 powi d \<le> x then d else d - 1)"

definition rne :: "rat \<Rightarrow> int" where
  "rne q = (let f = \<lfloor>q\<rfloor>; r = q - of_int f
            in if r < 1 / 2 then f else if r > 1 / 2 then f + 1
               else if even f then f else f + 1)"

definition round64 :: "rat \<Rightarrow> rat" where
  "round64 x = (if x = 0 then 0
                else let e = max (ilog2 \<bar>x\<bar>) (- 1022); ulp = 2 powi (e - 52)
                     in of_int (rne (x / ulp)) * ulp)"

text \<open>
  A rounded result of magnitude \<open>2^1024\<close> or more is an infinity. \<open>None\<close> stands for
  a result that is not a finite number: an infinity, or the infinity or NaN of a
  division by zero. In the expressions below an operand that is not finite never gives
  a finite result, so \<open>None\<close> propagates.
\<close>

definition f64 :: "rat \<Rightarrow> rat option" where
  "f64 x = (let y = round64 x in if \<bar>y\<bar> < 2 ^ 1024 then Some y else None)"

definition f64_sub :: "rat \<Rightarrow> rat \<Rightarrow> rat option" where
  "f64_sub x y = f64 (x - y)"

definition f64_mul :: "rat \<Rightarrow> rat \<Rightarrow> rat option" where
  "f64_mul x y = f64 (x * y)"

definition f64_div :: "rat \<Rightarrow> rat \<Rightarrow> rat option" where
  "f64_div x y = (if y = 0 then None else f64 (x / y))"

text \<open>
  The PnL of the backtester's \<^verbatim>\<open>closePosition\<close> (backtester.go, lines 135 to 143):
  \<^verbatim>\<open>priceDiff\<close> by side, \<^verbatim>\<open>PnLPercentage = (priceDiff / EntryPrice) * 100\<close> and
  \<^verbatim>\<open>PnL = Size * EntryPrice * (PnLPercentage / 100)\<close>, each operation rounded.
\<close>

definition Backtester_closePosition_PnL_float64 ::
  "string \<Rightarrow> rat \<Rightarrow> rat \<Rightarrow> rat \<Rightarrow> rat option" where
  "Backtester_closePosition_PnL_float64 side entryPrice exitPrice size' =
     Option.bind (if side = ''long'' then f64_sub exitPrice entryPrice
                  else f64_sub entryPrice exitPrice) (\<lambda>priceDiff.
     Option.bind (f64_div priceDiff entryPrice) (\<lambda>ratio.
     Option.bind (f64_mul ratio 100) (\<lambda>pnlPercentage.
     Option.bind (f64_mul size' entryPrice) (\<lambda>capital.
     Option.bind (f64_div pnlPercentage 100) (\<lambda>part.
     f64_mul capital part)))))"

text \<open>
  The PnL of \<^verbatim>\<open>Manager.ClosePosition\<close> (manager.go, lines 117 to 124):
  \<^verbatim>\<open>(price - EntryPrice) * Size\<close> for a long, \<^verbatim>\<open>(EntryPrice - price) * Size\<close>
  otherwise, each operation rounded.
\<close>

definition Manager_ClosePosition_PnL_float64 ::
  "string \<Rightarrow> rat \<Rightarrow> rat \<Rightarrow> rat \<Rightarrow> rat option" where
  "Manager_ClosePosition_PnL_float64 side entryPrice price size' =
     Option.bind (if side = ''long'' then f64_sub price entryPrice
                  else f64_sub entryPrice price) (\<lambda>priceDiff.
     f64_mul priceDiff size')"

section \<open>Vocabulary of the properties\<close>

text \<open>A signal is actionable when its type is one of the two directions.\<close>

definition actionable :: "Signal \<Rightarrow> bool" where
  "actionable s = (Type s = SignalLong \<or> Type s = SignalShort)"

text \<open>
  The position objects of a loop state of \<^verbatim>\<open>simulatePositions\<close> that are open: those of
  the ledger and the current one.
\<close>

definition open_positions :: "Position list \<times> Position option \<Rightarrow> Position list" where
  "open_positions st =
     filter IsOpen (fst st @ (case snd st of None \<Rightarrow> [] | Some cp \<Rightarrow> [cp]))"

text \<open>No position of a loop state, in the ledger or current, has the side \<open>x\<close>.\<close>

definition sides_avoid :: "string \<Rightarrow> Position list \<times> Position option \<Rightarrow> bool" where
  "sides_avoid x st =
     ((\<forall>p\<in>set (fst st). Side p \<noteq> x) \<and> (\<forall>p\<in>set_option (snd st). Side p \<noteq> x))"

text \<open>Every actionable signal's index is an index into the candle sequence.\<close>

definition valid_signal_indices :: "Candle list \<Rightarrow> Signal list \<Rightarrow> bool" where
  "valid_signal_indices candles signals =
     (\<forall>s\<in>set signals. actionable s \<longrightarrow> 0 \<le> Index s \<and> Index s < int (length candles))"

text \<open>
  What \<^verbatim>\<open>Manager.ClosePosition\<close> writes into a position object once the adapter has
  closed: the open flag, the exit price, reason and time, and the PnL by side.
\<close>

definition closed_by :: "real \<Rightarrow> string \<Rightarrow> int \<Rightarrow> Position \<Rightarrow> Position" where
  "closed_by price reason now v =
     v\<lparr>IsOpen := False, ExitPrice := price, ExitReason := reason, ExitTime := now,
       PnL := (if Side v = ''long'' then (price - EntryPrice v) * Size v
               else (EntryPrice v - price) * Size v)\<rparr>"

text \<open>The unrealized PnL in percent that \<^verbatim>\<open>CheckTPSL\<close> computes for an open position.\<close>

definition unrealizedPnLPercent :: "Position \<Rightarrow> real \<Rightarrow> real" where
  "unrealizedPnLPercent v currentPrice =
     (if Side v = ''long'' then ((currentPrice - EntryPrice v) / EntryPrice v) * 100
      else ((EntryPrice v - currentPrice) / EntryPrice v) * 100)"

text \<open>
  Rounding \<open>x\<close> does not underflow: \<open>x\<close> is zero or at least the least normal
  number \<open>2^-1022\<close> in magnitude.
\<close>

definition normal64 :: "rat \<Rightarrow> bool" where
  "normal64 x = (x = 0 \<or> 2 powi (- 1022) \<le> \<bar>x\<bar>)"

text \<open>
  The exact values of the quotients and products of the two PnL computations, as they
  are before each is rounded: the five of the backtester, then the product of the
  manager.
\<close>

definition PnL_rounded_values :: "string \<Rightarrow> rat \<Rightarrow> rat \<Rightarrow> rat \<Rightarrow> rat list" where
  "PnL_rounded_values side entryPrice exitPrice size' =
     (let priceDiff = round64 (if side = ''long'' then exitPrice - entryPrice
                               else entryPrice - exitPrice);
          ratio = round64 (priceDiff / entryPrice);
          pnlPercentage = round64 (ratio * 100);
          capital = round64 (size' * entryPrice);
          part = round64 (pnlPercentage / 100)
      in [priceDiff / entryPrice, ratio * 100, size' * entryPrice, pnlPercentage / 100,
          capital * part, priceDiff * size'])"

text \<open>\<open>y\<close> is \<open>t\<close> up to the relative error \<open>K - 1\<close>.\<close>

definition rel_within :: "rat \<Rightarrow> rat \<Rightarrow> rat \<Rightarrow> bool" where
  "rel_within K y t = (\<bar>y - t\<bar> \<le> (K - 1) * \<bar>t\<bar>)"

section \<open>Example inputs\<close>

definition ex_parseFloat :: "string \<Rightarrow> real" where
  "ex_parseFloat s = (if s = ''100'' then 100 else if s = ''110'' then 110
                      else if s = ''120'' then 120 else 0)"

definition ex_candles :: "Candle list" where
  "ex_candles = [\<lparr>Timestamp = 1000, Close = ''100''\<rparr>, \<lparr>Timestamp = 2000, Close = ''110''\<rparr>,
                 \<lparr>Timestamp = 3000, Close = ''120''\<rparr>]"

definition ex_signal :: "int \<Rightarrow> SignalType \<Rightarrow> real \<Rightarrow> Signal" where
  "ex_signal i t p = \<lparr>Index = i, Type = t, Price = p, Time = 1000 * (i + 1),
                      Reason = ''Trend Reversal''\<rparr>"

definition ex_config :: "string \<Rightarrow> ExecutionConfig" where
  "ex_config d = \<lparr>PositionSize = 1, TradeDirection = d, TakeProfitPercent = 5,
                  StopLossPercent = 5\<rparr>"

text \<open>A long, a short and again a long signal, one per candle.\<close>

definition ex_signals :: "Signal list" where
  "ex_signals = [ex_signal 0 SignalLong 100, ex_signal 1 SignalShort 110,
                 ex_signal 2 SignalLong 120]"

text \<open>One candle, and one long signal whose index lies far beyond it.\<close>

definition ex_one_candle :: "Candle list" where
  "ex_one_candle = [\<lparr>Timestamp = 1000, Close = ''100''\<rparr>]"

definition ex_far_signal :: "Signal list" where
  "ex_far_signal = [ex_signal 7 SignalLong 90]"

definition ex_no_visualization :: "(unit, unit) Visualization option" where
  "ex_no_visualization = None"

text \<open>
  The loop state after the first two of the example signals, trading both directions,
  and the ledgers of the example runs.
\<close>

definition ex_state2 :: "Position list \<times> Position option" where
  "ex_state2 =
     ([\<lparr>EntryIndex = 0, EntryPrice = 100, EntryTime = 1000, ExitIndex = 1, ExitPrice = 110,
        ExitTime = 2000, Side = ''long'', Size = 1, PnL = 10, PnLPercentage = 10,
        IsOpen = False, ExitReason = ''Trend Reversal'', MaxDrawdown = 0, MaxProfit = 0\<rparr>],
      Some \<lparr>EntryIndex = 1, EntryPrice = 110, EntryTime = 2000, ExitIndex = 0, ExitPrice = 0,
            ExitTime = 0, Side = ''short'', Size = 1, PnL = 0, PnLPercentage = 0,
            IsOpen = True, ExitReason = '''', MaxDrawdown = 0, MaxProfit = 0\<rparr>)"

definition ex_ledger_both :: "Position list" where
  "ex_ledger_both =
     [\<lparr>EntryIndex = 0, EntryPrice = 100, EntryTime = 1000, ExitIndex = 1, ExitPrice = 110,
       ExitTime = 2000, Side = ''long'', Size = 1, PnL = 10, PnLPercentage = 10,
       IsOpen = False, ExitReason = ''Trend Reversal'', MaxDrawdown = 0, MaxProfit = 0\<rparr>,
      \<lparr>EntryIndex = 1, EntryPrice = 110, EntryTime = 2000, ExitIndex = 2, ExitPrice = 120,
       ExitTime = 3000, Side = ''short'', Size = 1, PnL = - 10, PnLPercentage = - (100 / 11),
       IsOpen = False, ExitReason = ''Trend Reversal'', MaxDrawdown = 0, MaxProfit = 0\<rparr>,
      \<lparr>EntryIndex = 2, EntryPrice = 120, EntryTime = 3000, ExitIndex = 2, ExitPrice = 120,
       ExitTime = 3000, Side = ''long'', Size = 1, PnL = 0, PnLPercentage = 0,
       IsOpen = False, ExitReason = ''End of Period'', MaxDrawdown = 0, MaxProfit = 0\<rparr>]"

definition ex_ledger_long :: "Position list" where
  "ex_ledger_long =
     [\<lparr>EntryIndex = 0, EntryPrice = 100, EntryTime = 1000, ExitIndex = 2, ExitPrice = 120,
       ExitTime = 3000, Side = ''long'', Size = 1, PnL = 20, PnLPercentage = 20,
       IsOpen = False, ExitReason = ''Trend Reversal'', MaxDrawdown = 0, MaxProfit = 0\<rparr>,
      \<lparr>EntryIndex = 2, EntryPrice = 120, EntryTime = 3000, ExitIndex = 2, ExitPrice = 120,
       ExitTime = 3000, Side = ''long'', Size = 1, PnL = 0, PnLPercentage = 0,
       IsOpen = False, ExitReason = ''End of Period'', MaxDrawdown = 0, MaxProfit = 0\<rparr>]"

definition ex_ledger_short :: "Position list" where
  "ex_ledger_short =
     [\<lparr>EntryIndex = 1, EntryPrice = 110, EntryTime = 2000, ExitIndex = 2, ExitPrice = 120,
       ExitTime = 3000, Side = ''short'', Size = 1, PnL = - 10, PnLPercentage = - (100 / 11),
       IsOpen = False, ExitReason = ''End of Period'', MaxDrawdown = 0, MaxProfit = 0\<rparr>]"

definition ex_ledger_far :: "Position list" where
  "ex_ledger_far =
     [\<lparr>EntryIndex = 7, EntryPrice = 90, EntryTime = 8000, ExitIndex = 0, ExitPrice = 100,
       ExitTime = 1000, Side = ''long'', Size = 1, PnL = 10, PnLPercentage = 100 / 9,
       IsOpen = False, ExitReason = ''End of Period'', MaxDrawdown = 0, MaxProfit = 0\<rparr>]"

text \<open>A closed position with a given realized PnL.\<close>

definition ex_closed :: "real \<Rightarrow> Position" where
  "ex_closed pnl =
     \<lparr>EntryIndex = 0, EntryPrice = 100, EntryTime = 1000, ExitIndex = 1, ExitPrice = 110,
      ExitTime = 2000, Side = ''long'', Size = 1, PnL = pnl, PnLPercentage = 10,
      IsOpen = False, ExitReason = ''Trend Reversal'', MaxDrawdown = 0, MaxProfit = 0\<rparr>"

text \<open>
  A world whose objects are all an open long position entered at 100, with address 0 in
  use; a handle that may hold the position at address 0; a mock adapter without
  positions and one that holds the position at address 0 for the handle's symbol, as it
  does after it has opened it; an adapter whose venue answers no call; an engine that
  runs the handle.
\<close>

definition ex_open_long :: Position where
  "ex_open_long =
     \<lparr>EntryIndex = 0, EntryPrice = 100, EntryTime = 1000, ExitIndex = 0, ExitPrice = 0,
      ExitTime = 0, Side = ''long'', Size = 1, PnL = 0, PnLPercentage = 0, IsOpen = True,
      ExitReason = '''', MaxDrawdown = 0, MaxProfit = 0\<rparr>"

definition ex_world :: World where
  "ex_world = \<lparr>heap = (\<lambda>a. ex_open_long), allocated = 1, clock = (\<lambda>n. 5000 + int n),
               clockReads = 0\<rparr>"

definition ex_live :: "nat option \<Rightarrow> LiveStrategy" where
  "ex_live pos = \<lparr>ID = ''s1'', Config = ex_config ''both'', Symbol = ''BTC'', Interval = ''1h'',
                  IsRunning = True, Position = pos, LastCandleTime = 0\<rparr>"

definition ex_mock :: Adapter where
  "ex_mock = Mock (NewMockAdapter 1000)"

definition ex_mock_holding :: Adapter where
  "ex_mock_holding = Mock \<lparr>positions = [''BTC'' \<mapsto> 0], balance = 1000,
                           address = ''mock-address''\<rparr>"

definition ex_venue_down :: Adapter where
  "ex_venue_down =
     Hyperliquid \<lparr>info = \<lparr>UserState = (\<lambda>a. Inl ''timeout'')\<rparr>,
                  exchange_hl = \<lparr>UpdateLeverage = (\<lambda>l s c. Some ''timeout''),
                                  MarketOpen = (\<lambda>s b z p. Inl ''timeout''),
                                  SlippagePrice = (\<lambda>s b p. Inl ''timeout''),
                                  Order = (\<lambda>s b z p r. Inl ''timeout'')\<rparr>,
                  address_hl = ''0xabc''\<rparr>"

definition ex_engine :: "Adapter \<Rightarrow> Engine" where
  "ex_engine a = \<lparr>strategies = [''s1'' \<mapsto> ex_live (Some 0)],
                  positionMgr = Some (NewManager a)\<rparr>"

text \<open>
  An adapter whose venue fails to report the account state, so that a close fails, but
  fills a market order, so that an open succeeds.
\<close>

definition ex_venue_no_state :: Adapter where
  "ex_venue_no_state =
     Hyperliquid \<lparr>info = \<lparr>UserState = (\<lambda>a. Inl ''timeout'')\<rparr>,
                  exchange_hl = \<lparr>UpdateLeverage = (\<lambda>l s c. None),
                                  MarketOpen = (\<lambda>s b z p. Inr \<lparr>Resting = None,
                                      Filled = Some (''120'', ''1''), Error = None\<rparr>),
                                  SlippagePrice = (\<lambda>s b p. Inl ''timeout''),
                                  Order = (\<lambda>s b z p r. Inl ''timeout'')\<rparr>,
                  address_hl = ''0xabc''\<rparr>"

section \<open>Properties of the backtester\<close>

lemmas ex_defs = ex_parseFloat_def ex_candles_def ex_signal_def ex_config_def ex_signals_def
  ex_one_candle_def ex_far_signal_def ex_no_visualization_def

lemmas sim_defs = simulatePositions_def simulate_step_def Backtester_closePosition_def
  newPosition_def

lemma closePosition_closed:
  "Backtester_closePosition candles p i x r = Inr p' \<Longrightarrow> \<not> IsOpen p'"
  by (auto simp: Backtester_closePosition_def Let_def split: if_splits)

lemma closePosition_Side:
  "Backtester_closePosition candles p i x r = Inr p' \<Longrightarrow> Side p' = Side p"
  by (auto simp: Backtester_closePosition_def Let_def split: if_splits)

lemma closePosition_in_range:
  "0 \<le> i \<Longrightarrow> i < int (length candles)
     \<Longrightarrow> \<exists>p'. Backtester_closePosition candles p i x r = Inr p'"
  by (simp add: Backtester_closePosition_def Let_def)

text \<open>The ledger that \<^verbatim>\<open>Run\<close> returns is the one \<^verbatim>\<open>simulatePositions\<close> computes.\<close>

lemma Run_Positions:
  "Run pf candles sigs vis config name version = Inr res
     \<Longrightarrow> simulatePositions pf candles sigs config = Inr (Positions res)"
  by (auto simp: Run_def Let_def split: sum.splits option.splits)

lemma Run_returns:
  "simulatePositions pf candles sigs config = Inr ledger
     \<Longrightarrow> Run pf candles sigs vis config name version \<noteq> Inl IndexOutOfRange
       \<and> Positions (projr (Run pf candles sigs vis config name version)) = ledger"
  by (auto simp: Run_def Let_def split: option.splits)

subsection \<open>The ledger holds closed positions only\<close>

lemma step_ledger_closed:
  assumes "simulate_step candles config (ps, cur) s = Inr (ps', cur')"
    and "\<forall>p\<in>set ps. \<not> IsOpen p"
  shows "\<forall>p\<in>set ps'. \<not> IsOpen p"
  using assms
  by (auto simp: simulate_step_def Let_def split: if_splits option.splits sum.splits
           dest: closePosition_closed)

lemma loop_ledger_closed:
  "simulate_loop candles config st sigs = Inr st' \<Longrightarrow> \<forall>p\<in>set (fst st). \<not> IsOpen p
     \<Longrightarrow> \<forall>p\<in>set (fst st'). \<not> IsOpen p"
proof (induction sigs arbitrary: st)
  case Nil
  then show ?case by simp
next
  case (Cons s sigs)
  from Cons.prems(1) obtain st1 where
    1: "simulate_step candles config st s = Inr st1" and
    2: "simulate_loop candles config st1 sigs = Inr st'"
    by (auto split: sum.splits)
  from 1 Cons.prems(2) have "\<forall>p\<in>set (fst st1). \<not> IsOpen p"
    using step_ledger_closed [of candles config "fst st" "snd st" s "fst st1" "snd st1"]
    by simp
  with 2 show ?case by (rule Cons.IH)
qed

lemma open_positions_le1:
  "\<forall>p\<in>set (fst st). \<not> IsOpen p \<Longrightarrow> length (open_positions st) \<le> 1"
  by (cases st)
     (auto simp: open_positions_def filter_empty_conv[THEN iffD2] split: option.splits)

lemma simulatePositions_closed:
  assumes "simulatePositions pf candles sigs config = Inr ledger"
  shows "\<forall>p\<in>set ledger. \<not> IsOpen p"
proof -
  from assms obtain ps cur where
    L: "simulate_loop candles config ([], None) sigs = Inr (ps, cur)"
    by (auto simp: simulatePositions_def split: sum.splits)
  have inv: "\<forall>p\<in>set ps. \<not> IsOpen p"
    using loop_ledger_closed [OF L] by simp
  from assms L inv show ?thesis
    by (auto simp: simulatePositions_def Let_def split: option.splits if_splits sum.splits
             dest: closePosition_closed)
qed

text \<open>
  Claim C7. For every candle sequence, signal list and config: after any number \<open>n\<close> of
  signals the loop of the simulation holds at most one open position, counting the
  ledger and the current position, and the ledger holds closed positions only; and
  every position of the ledger that \<^verbatim>\<open>Run\<close> returns is closed.
\<close>

theorem C7_at_most_one_open:
  "(\<forall>n st. simulate_loop candles config ([], None) (take n sigs) = Inr st \<longrightarrow>
        length (open_positions st) \<le> 1 \<and> (\<forall>p\<in>set (fst st). \<not> IsOpen p))
   \<and> (\<forall>res. Run pf candles sigs vis config name version = Inr res \<longrightarrow>
          (\<forall>p\<in>set (Positions res). \<not> IsOpen p))"
proof (intro conjI allI impI)
  fix n st
  assume "simulate_loop candles config ([], None) (take n sigs) = Inr st"
  then have "\<forall>p\<in>set (fst st). \<not> IsOpen p"
    using loop_ledger_closed by fastforce
  then show "length (open_positions st) \<le> 1" and "\<forall>p\<in>set (fst st). \<not> IsOpen p"
    by (rule open_positions_le1, assumption)
next
  fix res
  assume "Run pf candles sigs vis config name version = Inr res"
  then have "simulatePositions pf candles sigs config = Inr (Positions res)"
    by (rule Run_Positions)
  then show "\<forall>p\<in>set (Positions res). \<not> IsOpen p"
    by (rule simulatePositions_closed)
qed

text \<open>The example runs, evaluated.\<close>

lemmas ex_ledger_defs = ex_state2_def ex_ledger_both_def ex_ledger_long_def
  ex_ledger_short_def ex_ledger_far_def

lemma ex_loop_both:
  "simulate_loop ex_candles (ex_config ''both'') ([], None) (take 2 ex_signals) = Inr ex_state2"
  by (simp add: sim_defs ex_defs ex_ledger_defs)

lemma ex_simulate_both:
  "simulatePositions ex_parseFloat ex_candles ex_signals (ex_config ''both'')
     = Inr ex_ledger_both"
  by (simp add: sim_defs ex_defs ex_ledger_defs)

lemma ex_simulate_long:
  "simulatePositions ex_parseFloat ex_candles ex_signals (ex_config ''long'')
     = Inr ex_ledger_long"
  by (simp add: sim_defs ex_defs ex_ledger_defs)

lemma ex_simulate_short:
  "simulatePositions ex_parseFloat ex_candles ex_signals (ex_config ''short'')
     = Inr ex_ledger_short"
  by (simp add: sim_defs ex_defs ex_ledger_defs)

lemma ex_simulate_far:
  "simulatePositions ex_parseFloat ex_one_candle ex_far_signal (ex_config ''both'')
     = Inr ex_ledger_far"
  by (simp add: sim_defs ex_defs ex_ledger_defs)

lemma Run_returns_Inr:
  "simulatePositions pf candles sigs config = Inr ledger
     \<Longrightarrow> \<exists>res. Run pf candles sigs vis config name version = Inr res \<and> Positions res = ledger"
  by (auto simp: Run_def Let_def split: option.splits)

theorem C7_witness:
  "simulate_loop ex_candles (ex_config ''both'') ([], None) (take 2 ex_signals) = Inr ex_state2
   \<and> length (open_positions ex_state2) \<le> 1
   \<and> Run ex_parseFloat ex_candles ex_signals ex_no_visualization (ex_config ''both'') ''s'' ''1''
        \<noteq> Inl IndexOutOfRange
   \<and> map IsOpen (Positions (projr (Run ex_parseFloat ex_candles ex_signals ex_no_visualization
        (ex_config ''both'') ''s'' ''1''))) = [False, False, False]"
proof -
  note T = C7_at_most_one_open [of ex_candles "ex_config ''both''" ex_signals ex_parseFloat
             ex_no_visualization "''s''" "''1''"]
  from T ex_loop_both have "length (open_positions ex_state2) \<le> 1" by blast
  moreover note R = Run_returns [OF ex_simulate_both, of ex_no_visualization "''s''" "''1''"]
  moreover from R have "map IsOpen (Positions (projr (Run ex_parseFloat ex_candles ex_signals
      ex_no_visualization (ex_config ''both'') ''s'' ''1''))) = [False, False, False]"
    by (simp add: ex_ledger_both_def)
  ultimately show ?thesis using ex_loop_both by simp
qed

subsection \<open>A signal of the side of the open position\<close>

text \<open>
  One iteration on a signal that is actionable and passes the direction filter, with a
  position open and the signal's index in range: whatever the side of the open
  position, it is closed at the signal's price and appended to the ledger, and a new
  position is opened.
\<close>

lemma step_closes_open_position:
  assumes "actionable s" and "IsOpen cp"
    and "\<not> (TradeDirection config = ''long'' \<and> Type s = SignalShort)"
    and "\<not> (TradeDirection config = ''short'' \<and> Type s = SignalLong)"
    and "Backtester_closePosition candles cp (Index s) (Price s) ''Trend Reversal'' = Inr cp'"
  shows "simulate_step candles config (ps, Some cp) s =
           Inr (ps @ [cp'],
                Some (newPosition s (if Type s = SignalShort then ''short'' else ''long'')
                        config))"
  using assms by (auto simp: simulate_step_def actionable_def Let_def)

text \<open>
  Claim C1 says that an actionable signal that passes the direction filter while a
  position of the same side is open is a no-op of the simulation. The code has no such
  check: the block under the comment \<^verbatim>\<open>Close existing position on reversal\<close> closes
  whatever position is open. The theorem evaluates \<^verbatim>\<open>Run\<close> on three candles with a
  long, a short and a long signal, trading long only: the short signal is filtered, and
  the second long signal, arriving while the long position entered at 100 is open,
  closes that position at 120 with the reason \<^verbatim>\<open>Trend Reversal\<close>, appends it to the
  ledger and opens a new long position, which the end of the period then closes.
\<close>

theorem C1_same_side_signal_reenters:
  "Run ex_parseFloat ex_candles ex_signals ex_no_visualization (ex_config ''long'') ''s'' ''1''
     \<noteq> Inl IndexOutOfRange
   \<and> Positions (projr (Run ex_parseFloat ex_candles ex_signals ex_no_visualization
        (ex_config ''long'') ''s'' ''1'')) =
     [\<lparr>EntryIndex = 0, EntryPrice = 100, EntryTime = 1000, ExitIndex = 2, ExitPrice = 120,
       ExitTime = 3000, Side = ''long'', Size = 1, PnL = 20, PnLPercentage = 20,
       IsOpen = False, ExitReason = ''Trend Reversal'', MaxDrawdown = 0, MaxProfit = 0\<rparr>,
      \<lparr>EntryIndex = 2, EntryPrice = 120, EntryTime = 3000, ExitIndex = 2, ExitPrice = 120,
       ExitTime = 3000, Side = ''long'', Size = 1, PnL = 0, PnLPercentage = 0,
       IsOpen = False, ExitReason = ''End of Period'', MaxDrawdown = 0, MaxProfit = 0\<rparr>]"
  using Run_returns [OF ex_simulate_long, of ex_no_visualization "''s''" "''1''"]
  by (simp add: ex_ledger_long_def)

subsection \<open>The direction filter\<close>

lemma step_sides:
  assumes "simulate_step candles config st s = Inr st'"
    and "(TradeDirection config = ''long'' \<and> x = ''short'')
         \<or> (TradeDirection config = ''short'' \<and> x = ''long'')"
    and "sides_avoid x st"
  shows "sides_avoid x st'"
  using assms
  by (cases st)
     (auto simp: sides_avoid_def simulate_step_def newPosition_def Let_def
           split: if_splits option.splits sum.splits dest!: closePosition_Side)

lemma loop_sides:
  "simulate_loop candles config st sigs = Inr st' \<Longrightarrow>
   (TradeDirection config = ''long'' \<and> x = ''short'')
     \<or> (TradeDirection config = ''short'' \<and> x = ''long'') \<Longrightarrow>
   sides_avoid x st \<Longrightarrow> sides_avoid x st'"
proof (induction sigs arbitrary: st)
  case Nil
  then show ?case by simp
next
  case (Cons s sigs)
  from Cons.prems(1) obtain st1 where
    1: "simulate_step candles config st s = Inr st1" and
    2: "simulate_loop candles config st1 sigs = Inr st'"
    by (auto split: sum.splits)
  have "sides_avoid x st1" by (rule step_sides [OF 1 Cons.prems(2) Cons.prems(3)])
  with 2 Cons.prems(2) show ?case by (rule Cons.IH)
qed

lemma simulatePositions_sides:
  assumes "simulatePositions pf candles sigs config = Inr ledger"
    and "(TradeDirection config = ''long'' \<and> x = ''short'')
         \<or> (TradeDirection config = ''short'' \<and> x = ''long'')"
  shows "\<forall>p\<in>set ledger. Side p \<noteq> x"
proof -
  from assms(1) obtain ps cur where
    L: "simulate_loop candles config ([], None) sigs = Inr (ps, cur)"
    by (auto simp: simulatePositions_def split: sum.splits)
  have "sides_avoid x ([], None)" by (simp add: sides_avoid_def)
  then have inv: "sides_avoid x (ps, cur)"
    using loop_sides [OF L assms(2)] by simp
  from assms(1) L inv show ?thesis
    by (auto simp: simulatePositions_def sides_avoid_def Let_def
             split: option.splits if_splits sum.splits dest!: closePosition_Side)
qed

text \<open>
  Claim C8. For every signal sequence and candle sequence: when the config trades long
  only, no position of the ledger returned by \<^verbatim>\<open>Run\<close> has the side \<^verbatim>\<open>short\<close>, and
  when it trades short only, none has the side \<^verbatim>\<open>long\<close>.
\<close>

theorem C8_direction_filter:
  assumes "Run pf candles sigs vis config name version = Inr res"
  shows "(TradeDirection config = ''long'' \<longrightarrow> (\<forall>p\<in>set (Positions res). Side p \<noteq> ''short''))
       \<and> (TradeDirection config = ''short'' \<longrightarrow> (\<forall>p\<in>set (Positions res). Side p \<noteq> ''long''))"
  using simulatePositions_sides [OF Run_Positions [OF assms]] by simp

theorem C8_witness:
  "Run ex_parseFloat ex_candles ex_signals ex_no_visualization (ex_config ''long'') ''s'' ''1''
     \<noteq> Inl IndexOutOfRange
   \<and> map Side (Positions (projr (Run ex_parseFloat ex_candles ex_signals ex_no_visualization
        (ex_config ''long'') ''s'' ''1''))) = [''long'', ''long'']
   \<and> Run ex_parseFloat ex_candles ex_signals ex_no_visualization (ex_config ''short'') ''s'' ''1''
     \<noteq> Inl IndexOutOfRange
   \<and> map Side (Positions (projr (Run ex_parseFloat ex_candles ex_signals ex_no_visualization
        (ex_config ''short'') ''s'' ''1''))) = [''short'']"
proof -
  obtain r1 where r1: "Run ex_parseFloat ex_candles ex_signals ex_no_visualization
      (ex_config ''long'') ''s'' ''1'' = Inr r1" and p1: "Positions r1 = ex_ledger_long"
    using Run_returns_Inr [OF ex_simulate_long] by blast
  obtain r2 where r2: "Run ex_parseFloat ex_candles ex_signals ex_no_visualization
      (ex_config ''short'') ''s'' ''1'' = Inr r2" and p2: "Positions r2 = ex_ledger_short"
    using Run_returns_Inr [OF ex_simulate_short] by blast
  from C8_direction_filter [OF r1] C8_direction_filter [OF r2] r1 r2 p1 p2
  show ?thesis by (simp add: ex_ledger_long_def ex_ledger_short_def)
qed

subsection \<open>Indexing of the candles\<close>

lemma step_in_range:
  assumes "actionable s \<longrightarrow> 0 \<le> Index s \<and> Index s < int (length candles)"
  shows "\<exists>st'. simulate_step candles config st s = Inr st'"
proof (cases st)
  case (Pair ps cur)
  show ?thesis
  proof (cases "actionable s")
    case False
    then show ?thesis by (simp add: simulate_step_def actionable_def Pair)
  next
    case True
    with assms have "0 \<le> Index s" "Index s < int (length candles)" by simp_all
    then have cl: "\<exists>p'. Backtester_closePosition candles cp (Index s) (Price s)
                          ''Trend Reversal'' = Inr p'" for cp
      by (rule closePosition_in_range)
    show ?thesis
    proof (cases cur)
      case None
      then show ?thesis by (simp add: simulate_step_def Let_def Pair)
    next
      case (Some cp)
      from cl [of cp] obtain p' where
        "Backtester_closePosition candles cp (Index s) (Price s) ''Trend Reversal'' = Inr p'" ..
      then show ?thesis by (simp add: simulate_step_def Let_def Pair Some)
    qed
  qed
qed

lemma loop_in_range:
  "\<forall>s\<in>set sigs. actionable s \<longrightarrow> 0 \<le> Index s \<and> Index s < int (length candles) \<Longrightarrow>
   \<exists>st'. simulate_loop candles config st sigs = Inr st'"
proof (induction sigs arbitrary: st)
  case Nil
  then show ?case by simp
next
  case (Cons s sigs)
  then obtain st1 where "simulate_step candles config st s = Inr st1"
    using step_in_range [of s candles config st] by auto
  moreover from Cons obtain st' where "simulate_loop candles config st1 sigs = Inr st'"
    by fastforce
  ultimately show ?case by simp
qed

text \<open>
  Claim C10, as amended. If every actionable signal's index is a valid index into the
  candle sequence, and the candle sequence is non-empty whenever a position remains
  open after the signals are exhausted, then every access \<^verbatim>\<open>candles[exitIndex]\<close> and
  the access \<^verbatim>\<open>candles[len(candles)-1]\<close> is in bounds: \<^verbatim>\<open>Run\<close> returns a result. The
  precondition is sufficient, not necessary: the index of a signal is read into
  \<^verbatim>\<open>candles\<close> only when a position is open at that signal.
\<close>

theorem C10_in_bounds:
  assumes "valid_signal_indices candles sigs"
    and "\<forall>ledger cp. simulate_loop candles config ([], None) sigs = Inr (ledger, Some cp)
            \<longrightarrow> IsOpen cp \<longrightarrow> candles \<noteq> []"
  shows "\<exists>res. Run pf candles sigs vis config name version = Inr res"
proof -
  from assms(1) obtain ps cur where
    L: "simulate_loop candles config ([], None) sigs = Inr (ps, cur)"
    using loop_in_range [of sigs candles config "([], None)"]
    by (auto simp: valid_signal_indices_def)
  have "\<exists>ledger. simulatePositions pf candles sigs config = Inr ledger"
  proof (cases cur)
    case None
    with L show ?thesis by (simp add: simulatePositions_def)
  next
    case (Some cp)
    show ?thesis
    proof (cases "IsOpen cp")
      case False
      with L Some show ?thesis by (simp add: simulatePositions_def)
    next
      case True
      with assms(2) L Some have ne: "candles \<noteq> []" by blast
      then have "0 \<le> int (length candles) - 1"
        and "int (length candles) - 1 < int (length candles)"
        by (cases candles; simp)+
      then obtain cp' where
        "Backtester_closePosition candles cp (int (length candles) - 1)
           (pf (Close (candles ! (length candles - 1)))) ''End of Period'' = Inr cp'"
        using closePosition_in_range by blast
      with L Some True ne show ?thesis by (simp add: simulatePositions_def Let_def)
    qed
  qed
  then show ?thesis by (auto simp: Run_def Let_def)
qed

theorem C10_witness:
  "valid_signal_indices ex_candles ex_signals
   \<and> Run ex_parseFloat ex_candles ex_signals ex_no_visualization (ex_config ''both'') ''s'' ''1''
        \<noteq> Inl IndexOutOfRange"
proof -
  have v: "valid_signal_indices ex_candles ex_signals"
    by (simp add: valid_signal_indices_def actionable_def ex_defs)
  have ne: "\<forall>ledger cp. simulate_loop ex_candles (ex_config ''both'') ([], None) ex_signals
              = Inr (ledger, Some cp) \<longrightarrow> IsOpen cp \<longrightarrow> ex_candles \<noteq> []"
    by (simp add: ex_candles_def)
  from C10_in_bounds [OF v ne, of ex_parseFloat ex_no_visualization "''s''" "''1''"] v
  show ?thesis by auto
qed

text \<open>
  Claim C10 as stated also says that without the precondition the accesses index out of
  range. They need not: with one candle and a single long signal of index 7 the
  precondition fails, yet the signal only opens a position, which the end of the period
  closes at candle 0.
\<close>

theorem C10_counterexample:
  "\<not> valid_signal_indices ex_one_candle ex_far_signal
   \<and> Run ex_parseFloat ex_one_candle ex_far_signal ex_no_visualization (ex_config ''both'')
        ''s'' ''1'' \<noteq> Inl IndexOutOfRange"
  using Run_returns [OF ex_simulate_far, of ex_no_visualization "''s''" "''1''"]
  by (simp add: valid_signal_indices_def actionable_def ex_defs)

section \<open>Properties of the metrics\<close>

text \<open>One iteration of the loop of \<^verbatim>\<open>calculateMetrics\<close> on a closed position, by branch.\<close>

lemma metrics_step_win:
  assumes "\<not> IsOpen p" and "PnL p > 0"
  shows "metrics_step l p =
     \<lparr>result = (result l)\<lparr>totalPnL := totalPnL (result l) + PnL p,
                            totalTrades := totalTrades (result l) + 1,
                            winningTrades := winningTrades (result l) + 1,
                            maxDrawdown := min (MaxDrawdown p) (maxDrawdown (result l))\<rparr>,
      totalWin = totalWin l + PnL p,
      totalLoss = totalLoss l,
      winStreak = max (currentWinStreak l + 1) (winStreak l),
      lossStreak = lossStreak l,
      currentWinStreak = currentWinStreak l + 1,
      currentLossStreak = 0,
      totalHoldTime =
        int64 (totalHoldTime l + int64 (int64 (ExitTime p - EntryTime p) * 1000000)),
      totalCapitalInvested = totalCapitalInvested l + Size p * EntryPrice p\<rparr>"
  using assms by (simp add: metrics_step_def Let_def min_def max_def)

lemma metrics_step_loss:
  assumes "\<not> IsOpen p" and "\<not> PnL p > 0"
  shows "metrics_step l p =
     \<lparr>result = (result l)\<lparr>totalPnL := totalPnL (result l) + PnL p,
                            totalTrades := totalTrades (result l) + 1,
                            losingTrades := losingTrades (result l) + 1,
                            maxDrawdown := min (MaxDrawdown p) (maxDrawdown (result l))\<rparr>,
      totalWin = totalWin l,
      totalLoss = totalLoss l + - PnL p,
      winStreak = winStreak l,
      lossStreak = max (currentLossStreak l + 1) (lossStreak l),
      currentWinStreak = 0,
      currentLossStreak = currentLossStreak l + 1,
      totalHoldTime =
        int64 (totalHoldTime l + int64 (int64 (ExitTime p - EntryTime p) * 1000000)),
      totalCapitalInvested = totalCapitalInvested l + Size p * EntryPrice p\<rparr>"
  using assms by (simp add: metrics_step_def Let_def min_def max_def)

text \<open>The fields of the metrics in terms of the locals that the loop leaves.\<close>

lemma calculateMetrics_fields:
  assumes "ps \<noteq> []"
  shows "winningTrades (calculateMetrics ps) = winningTrades (result (metrics_loop zeroLocals ps))"
    and "losingTrades (calculateMetrics ps) = losingTrades (result (metrics_loop zeroLocals ps))"
    and "longestWinStreak (calculateMetrics ps) = winStreak (metrics_loop zeroLocals ps)"
    and "longestLossStreak (calculateMetrics ps) = lossStreak (metrics_loop zeroLocals ps)"
    and "winRate (calculateMetrics ps) =
          (if totalTrades (result (metrics_loop zeroLocals ps)) > 0
           then of_int (winningTrades (result (metrics_loop zeroLocals ps)))
                  / of_int (totalTrades (result (metrics_loop zeroLocals ps))) * 100
           else winRate (result (metrics_loop zeroLocals ps)))"
    and "averageWin (calculateMetrics ps) =
          (if winningTrades (result (metrics_loop zeroLocals ps)) > 0
           then totalWin (metrics_loop zeroLocals ps)
                  / of_int (winningTrades (result (metrics_loop zeroLocals ps)))
           else averageWin (result (metrics_loop zeroLocals ps)))"
    and "averageLoss (calculateMetrics ps) =
          (if losingTrades (result (metrics_loop zeroLocals ps)) > 0
           then totalLoss (metrics_loop zeroLocals ps)
                  / of_int (losingTrades (result (metrics_loop zeroLocals ps)))
           else averageLoss (result (metrics_loop zeroLocals ps)))"
    and "profitFactor (calculateMetrics ps) =
          (if totalLoss (metrics_loop zeroLocals ps) > 0
           then totalWin (metrics_loop zeroLocals ps) / totalLoss (metrics_loop zeroLocals ps)
           else profitFactor (result (metrics_loop zeroLocals ps)))"
  using assms by (simp_all add: calculateMetrics_def Let_def)

lemma metrics_three_locals:
  assumes "\<not> IsOpen p1" "\<not> IsOpen p2" "\<not> IsOpen p3"
    and "PnL p1 = 100" "PnL p2 = - 50" "PnL p3 = 30"
  shows "totalTrades (result (metrics_loop zeroLocals [p1, p2, p3])) = 3"
    and "winningTrades (result (metrics_loop zeroLocals [p1, p2, p3])) = 2"
    and "losingTrades (result (metrics_loop zeroLocals [p1, p2, p3])) = 1"
    and "totalWin (metrics_loop zeroLocals [p1, p2, p3]) = 130"
    and "totalLoss (metrics_loop zeroLocals [p1, p2, p3]) = 50"
    and "winStreak (metrics_loop zeroLocals [p1, p2, p3]) = 1"
    and "lossStreak (metrics_loop zeroLocals [p1, p2, p3]) = 1"
  using assms
  by (simp_all add: metrics_step_win metrics_step_loss zeroLocals_def zeroMetrics_def)

text \<open>Without a closed position of negative PnL the loop records no loss.\<close>

lemma step_totalLoss:
  "\<not> IsOpen p \<longrightarrow> 0 \<le> PnL p \<Longrightarrow> totalLoss (metrics_step l p) = totalLoss l"
  by (auto simp: metrics_step_def Let_def split: if_splits)

lemma loop_totalLoss:
  "\<forall>p\<in>set ps. \<not> IsOpen p \<longrightarrow> 0 \<le> PnL p
     \<Longrightarrow> totalLoss (metrics_loop l ps) = totalLoss l"
  by (induction ps arbitrary: l) (simp_all add: step_totalLoss)

lemma step_profitFactor:
  "profitFactor (result (metrics_step l p)) = profitFactor (result l)"
  by (auto simp: metrics_step_def Let_def split: if_splits)

lemma loop_profitFactor:
  "profitFactor (result (metrics_loop l ps)) = profitFactor (result l)"
  by (induction ps arbitrary: l) (simp_all add: step_profitFactor)

lemma no_loss_profitFactor:
  assumes "\<forall>p\<in>set ps. \<not> IsOpen p \<longrightarrow> 0 \<le> PnL p"
  shows "profitFactor (calculateMetrics ps) = 0"
proof -
  have "totalLoss (metrics_loop zeroLocals ps) = 0"
    using loop_totalLoss [OF assms, of zeroLocals] by (simp add: zeroLocals_def)
  moreover have "profitFactor (result (metrics_loop zeroLocals ps)) = 0"
    by (simp add: loop_profitFactor zeroLocals_def zeroMetrics_def)
  ultimately show ?thesis
    by (simp add: calculateMetrics_def Let_def zeroMetrics_def)
qed

text \<open>
  Claim C6. For a ledger of exactly three closed positions with PnL +100, -50 and +30,
  whatever their other fields, \<^verbatim>\<open>calculateMetrics\<close> yields the win rate 2/3*100 (66.7
  when rounded to one decimal), 2 winning trades, 1 losing trade, the average win 65,
  the average loss 50, the profit factor 2.6 and longest win and loss streaks of 1. In
  general, for a ledger in which no closed position has a negative PnL, so that no loss
  is recorded, the profit factor is 0.
\<close>

theorem C6_metrics:
  "(\<not> IsOpen p1 \<and> \<not> IsOpen p2 \<and> \<not> IsOpen p3 \<and> PnL p1 = 100 \<and> PnL p2 = - 50 \<and> PnL p3 = 30 \<longrightarrow>
      winRate (calculateMetrics [p1, p2, p3]) = 2 / 3 * 100
      \<and> \<bar>winRate (calculateMetrics [p1, p2, p3]) - 66.7\<bar> < 0.05
      \<and> winningTrades (calculateMetrics [p1, p2, p3]) = 2
      \<and> losingTrades (calculateMetrics [p1, p2, p3]) = 1
      \<and> averageWin (calculateMetrics [p1, p2, p3]) = 65
      \<and> averageLoss (calculateMetrics [p1, p2, p3]) = 50
      \<and> profitFactor (calculateMetrics [p1, p2, p3]) = 2.6
      \<and> longestWinStreak (calculateMetrics [p1, p2, p3]) = 1
      \<and> longestLossStreak (calculateMetrics [p1, p2, p3]) = 1)
   \<and> ((\<forall>p\<in>set ps. \<not> IsOpen p \<longrightarrow> 0 \<le> PnL p) \<longrightarrow> profitFactor (calculateMetrics ps) = 0)"
proof (intro conjI impI)
  assume a: "\<not> IsOpen p1 \<and> \<not> IsOpen p2 \<and> \<not> IsOpen p3
             \<and> PnL p1 = 100 \<and> PnL p2 = - 50 \<and> PnL p3 = 30"
  then have l: "\<not> IsOpen p1" "\<not> IsOpen p2" "\<not> IsOpen p3"
    "PnL p1 = 100" "PnL p2 = - 50" "PnL p3 = 30"
    by simp_all
  have ne: "[p1, p2, p3] \<noteq> []" by simp
  note f = calculateMetrics_fields [OF ne]
  note v = metrics_three_locals [OF l]
  show "winRate (calculateMetrics [p1, p2, p3]) = 2 / 3 * 100"
    by (simp add: f(5) v del: metrics_loop.simps)
  then show "\<bar>winRate (calculateMetrics [p1, p2, p3]) - 66.7\<bar> < 0.05"
    by simp
  show "winningTrades (calculateMetrics [p1, p2, p3]) = 2"
    by (simp add: f(1) v del: metrics_loop.simps)
  show "losingTrades (calculateMetrics [p1, p2, p3]) = 1"
    by (simp add: f(2) v del: metrics_loop.simps)
  show "averageWin (calculateMetrics [p1, p2, p3]) = 65"
    by (simp add: f(6) v del: metrics_loop.simps)
  show "averageLoss (calculateMetrics [p1, p2, p3]) = 50"
    by (simp add: f(7) v del: metrics_loop.simps)
  show "profitFactor (calculateMetrics [p1, p2, p3]) = 2.6"
    by (simp add: f(8) v del: metrics_loop.simps)
  show "longestWinStreak (calculateMetrics [p1, p2, p3]) = 1"
    by (simp add: f(3) v del: metrics_loop.simps)
  show "longestLossStreak (calculateMetrics [p1, p2, p3]) = 1"
    by (simp add: f(4) v del: metrics_loop.simps)
next
  assume "\<forall>p\<in>set ps. \<not> IsOpen p \<longrightarrow> 0 \<le> PnL p"
  then show "profitFactor (calculateMetrics ps) = 0"
    by (rule no_loss_profitFactor)
qed

theorem C6_witness:
  "winRate (calculateMetrics [ex_closed 100, ex_closed (- 50), ex_closed 30]) = 200 / 3
   \<and> winningTrades (calculateMetrics [ex_closed 100, ex_closed (- 50), ex_closed 30]) = 2
   \<and> losingTrades (calculateMetrics [ex_closed 100, ex_closed (- 50), ex_closed 30]) = 1
   \<and> averageWin (calculateMetrics [ex_closed 100, ex_closed (- 50), ex_closed 30]) = 65
   \<and> averageLoss (calculateMetrics [ex_closed 100, ex_closed (- 50), ex_closed 30]) = 50
   \<and> profitFactor (calculateMetrics [ex_closed 100, ex_closed (- 50), ex_closed 30]) = 13 / 5
   \<and> longestWinStreak (calculateMetrics [ex_closed 100, ex_closed (- 50), ex_closed 30]) = 1
   \<and> longestLossStreak (calculateMetrics [ex_closed 100, ex_closed (- 50), ex_closed 30]) = 1
   \<and> profitFactor (calculateMetrics [ex_closed 100, ex_closed 30]) = 0"
  using C6_metrics [of "ex_closed 100" "ex_closed (- 50)" "ex_closed 30"
                       "[ex_closed 100, ex_closed 30]"]
  by (simp add: ex_closed_def)

section \<open>Properties of the live path\<close>

lemmas world_defs = store_Position_def time_Now_UnixMilli_def new_Position_def

lemmas live_defs = GetPosition_def GetSymbol_def GetConfig_def SetPosition_def

lemmas ex_live_defs = ex_open_long_def ex_world_def ex_live_def ex_mock_def ex_mock_holding_def
  ex_venue_down_def NewMockAdapter_def NewManager_def

subsection \<open>What an adapter's close does to the position objects\<close>

text \<open>
  A close that fails changes nothing: the mock adapter never fails, and the Hyperliquid
  adapter only talks to the venue.
\<close>

lemma Adapter_ClosePosition_failure:
  assumes "Adapter_ClosePosition pf a symb sz w = (Some e, a', w')"
  shows "a' = a \<and> w' = w"
  using assms
  by (cases a)
     (auto simp: Adapter_ClosePosition_def MockAdapter_ClosePosition_def Let_def
           split: option.splits prod.splits)

text \<open>
  A close leaves a position object as it is or, in the mock adapter, marks the object
  it holds for the symbol closed and stamps its exit time.
\<close>

lemma Adapter_ClosePosition_frame:
  assumes "Adapter_ClosePosition pf a symb sz w = (e, a', w')"
  shows "heap w' p = heap w p
         \<or> heap w' p = (heap w p)\<lparr>IsOpen := False, ExitTime := clock w (clockReads w)\<rparr>"
  using assms
  by (cases a)
     (auto simp: Adapter_ClosePosition_def MockAdapter_ClosePosition_def Let_def world_defs
           split: option.splits prod.splits)

lemma Adapter_ClosePosition_keeps:
  assumes "Adapter_ClosePosition pf a symb sz w = (e, a', w')"
  shows "Side (heap w' p) = Side (heap w p)"
    and "EntryPrice (heap w' p) = EntryPrice (heap w p)"
    and "Size (heap w' p) = Size (heap w p)"
  using Adapter_ClosePosition_frame [OF assms, of p] by auto

subsection \<open>ClosePosition, by outcome of the adapter\<close>

lemma Manager_ClosePosition_success:
  assumes "Position live = Some p" and "IsOpen (heap w p)"
    and "Adapter_ClosePosition pf (exchange m) (Symbol live) (Size (heap w p)) w
           = (None, a', w')"
  shows "Manager_ClosePosition pf m live price reason w =
           (m\<lparr>exchange := a'\<rparr>,
            w'\<lparr>heap := (heap w')
                   (p := closed_by price reason (clock w' (clockReads w')) (heap w' p)),
               clockReads := clockReads w' + 1\<rparr>)"
  using assms
  by (simp add: Manager_ClosePosition_def live_defs world_defs Let_def closed_by_def)

lemma Manager_ClosePosition_failure:
  assumes "Position live = Some p" and "IsOpen (heap w p)"
    and "fst (Adapter_ClosePosition pf (exchange m) (Symbol live) (Size (heap w p)) w) \<noteq> None"
  shows "Manager_ClosePosition pf m live price reason w = (m, w)"
proof -
  from assms(3) obtain e a' w' where
    A: "Adapter_ClosePosition pf (exchange m) (Symbol live) (Size (heap w p)) w
          = (Some e, a', w')"
    by (cases "Adapter_ClosePosition pf (exchange m) (Symbol live) (Size (heap w p)) w") auto
  from Adapter_ClosePosition_failure [OF A] have "a' = exchange m" "w' = w" by simp_all
  with assms(1,2) A show ?thesis
    by (simp add: Manager_ClosePosition_def live_defs Let_def)
qed

lemma Manager_ClosePosition_noop:
  assumes "Position live = None \<or> (\<exists>p. Position live = Some p \<and> \<not> IsOpen (heap w p))"
  shows "Manager_ClosePosition pf m live price reason w = (m, w)"
  using assms by (auto simp: Manager_ClosePosition_def live_defs)

lemma Manager_ClosePosition_closes:
  assumes "Position live = Some p" and "IsOpen (heap w p)"
    and "fst (Adapter_ClosePosition pf (exchange m) (Symbol live) (Size (heap w p)) w) = None"
  shows "\<not> IsOpen (heap (snd (Manager_ClosePosition pf m live price reason w)) p)"
    and "ExitReason (heap (snd (Manager_ClosePosition pf m live price reason w)) p) = reason"
    and "ExitPrice (heap (snd (Manager_ClosePosition pf m live price reason w)) p) = price"
    and "PnL (heap (snd (Manager_ClosePosition pf m live price reason w)) p) =
           (if Side (heap w p) = ''long'' then (price - EntryPrice (heap w p)) * Size (heap w p)
            else (EntryPrice (heap w p) - price) * Size (heap w p))"
proof -
  from assms(3) obtain a' w' where
    A: "Adapter_ClosePosition pf (exchange m) (Symbol live) (Size (heap w p)) w
          = (None, a', w')"
    by (cases "Adapter_ClosePosition pf (exchange m) (Symbol live) (Size (heap w p)) w") auto
  note S = Manager_ClosePosition_success [OF assms(1,2) A, of price reason]
  note K = Adapter_ClosePosition_keeps [OF A, of p]
  show "\<not> IsOpen (heap (snd (Manager_ClosePosition pf m live price reason w)) p)"
    by (simp add: S closed_by_def)
  show "ExitReason (heap (snd (Manager_ClosePosition pf m live price reason w)) p) = reason"
    by (simp add: S closed_by_def)
  show "ExitPrice (heap (snd (Manager_ClosePosition pf m live price reason w)) p) = price"
    by (simp add: S closed_by_def)
  show "PnL (heap (snd (Manager_ClosePosition pf m live price reason w)) p) =
           (if Side (heap w p) = ''long'' then (price - EntryPrice (heap w p)) * Size (heap w p)
            else (EntryPrice (heap w p) - price) * Size (heap w p))"
    by (simp add: S closed_by_def K)
qed

lemma ex_mock_close:
  "fst (Adapter_ClosePosition ex_parseFloat ex_mock_holding ''BTC'' 1 ex_world) = None"
  by (simp add: Adapter_ClosePosition_def MockAdapter_ClosePosition_def Let_def world_defs
        ex_live_defs split: prod.splits)

text \<open>
  Claim C4. For every handle: if it has no open position (none, or one that is closed),
  \<^verbatim>\<open>ClosePosition\<close> changes nothing; if it has an open position and the adapter's close
  fails, \<^verbatim>\<open>ClosePosition\<close> leaves the manager and the whole store as they were, so the
  position object is unchanged in every field and still open.
\<close>

theorem C4_failed_close_keeps_position:
  "(Position live = None \<or> (\<exists>p. Position live = Some p \<and> \<not> IsOpen (heap w p)) \<longrightarrow>
      Manager_ClosePosition pf m live price reason w = (m, w))
   \<and> (\<forall>p. Position live = Some p \<and> IsOpen (heap w p)
            \<and> fst (Adapter_ClosePosition pf (exchange m) (Symbol live) (Size (heap w p)) w)
                \<noteq> None \<longrightarrow>
          Manager_ClosePosition pf m live price reason w = (m, w)
          \<and> heap (snd (Manager_ClosePosition pf m live price reason w)) p = heap w p
          \<and> IsOpen (heap (snd (Manager_ClosePosition pf m live price reason w)) p))"
proof (intro conjI allI impI)
  assume "Position live = None \<or> (\<exists>p. Position live = Some p \<and> \<not> IsOpen (heap w p))"
  then show "Manager_ClosePosition pf m live price reason w = (m, w)"
    by (rule Manager_ClosePosition_noop)
next
  fix p
  assume a: "Position live = Some p \<and> IsOpen (heap w p)
            \<and> fst (Adapter_ClosePosition pf (exchange m) (Symbol live) (Size (heap w p)) w)
                \<noteq> None"
  then have r: "Manager_ClosePosition pf m live price reason w = (m, w)"
    using Manager_ClosePosition_failure by blast
  then show "Manager_ClosePosition pf m live price reason w = (m, w)" .
  from r show "heap (snd (Manager_ClosePosition pf m live price reason w)) p = heap w p"
    by simp
  from r a show "IsOpen (heap (snd (Manager_ClosePosition pf m live price reason w)) p)"
    by simp
qed

theorem C4_witness:
  "Manager_ClosePosition ex_parseFloat (NewManager ex_mock) (ex_live None) 105 ''Take Profit''
       ex_world
     = (NewManager ex_mock, ex_world)
   \<and> fst (Adapter_ClosePosition ex_parseFloat ex_venue_down ''BTC'' 1 ex_world)
       = Some ''failed to fetch position: timeout''
   \<and> Manager_ClosePosition ex_parseFloat (NewManager ex_venue_down) (ex_live (Some 0)) 105
       ''Take Profit'' ex_world
     = (NewManager ex_venue_down, ex_world)
   \<and> heap (snd (Manager_ClosePosition ex_parseFloat (NewManager ex_venue_down)
        (ex_live (Some 0)) 105 ''Take Profit'' ex_world)) 0 = ex_open_long"
proof -
  have f: "fst (Adapter_ClosePosition ex_parseFloat ex_venue_down ''BTC'' 1 ex_world)
             = Some ''failed to fetch position: timeout''"
    by (simp add: Adapter_ClosePosition_def HyperliquidAdapter_ClosePosition_def ex_live_defs)
  have h: "Position (ex_live (Some 0)) = Some 0 \<and> IsOpen (heap ex_world 0)
           \<and> fst (Adapter_ClosePosition ex_parseFloat (exchange (NewManager ex_venue_down))
                 (Symbol (ex_live (Some 0))) (Size (heap ex_world 0)) ex_world) \<noteq> None"
    using f by (simp add: ex_live_defs)
  have n: "Position (ex_live None) = None" by (simp add: ex_live_def)
  from C4_failed_close_keeps_position [of "ex_live None" ex_world ex_parseFloat
         "NewManager ex_mock" 105 "''Take Profit''"] n
  have 1: "Manager_ClosePosition ex_parseFloat (NewManager ex_mock) (ex_live None) 105
             ''Take Profit'' ex_world = (NewManager ex_mock, ex_world)"
    by blast
  from C4_failed_close_keeps_position [of "ex_live (Some 0)" ex_world ex_parseFloat
         "NewManager ex_venue_down" 105 "''Take Profit''"] h
  have 2: "Manager_ClosePosition ex_parseFloat (NewManager ex_venue_down) (ex_live (Some 0))
             105 ''Take Profit'' ex_world = (NewManager ex_venue_down, ex_world)"
    by blast
  from 1 2 f show ?thesis by (simp add: ex_world_def)
qed

text \<open>
  \<^verbatim>\<open>HandleSignal\<close> does not look at the outcome of the close it asks for on a
  reversal. With a venue that fails the close and fills the open, a short signal on a
  handle with the open long position at address 0 leaves that position untouched and
  open, and sets the new position at address 1 on the handle.
\<close>

lemma ex_HandleSignal_failed_reversal:
  "Position (fst (snd (Manager_HandleSignal ex_parseFloat (NewManager ex_venue_no_state)
       (ex_live (Some 0)) (ex_signal 2 SignalShort 120) 120 ex_world))) = Some 1
   \<and> heap (snd (snd (Manager_HandleSignal ex_parseFloat (NewManager ex_venue_no_state)
       (ex_live (Some 0)) (ex_signal 2 SignalShort 120) 120 ex_world))) 0 = ex_open_long
   \<and> IsOpen (heap (snd (snd (Manager_HandleSignal ex_parseFloat (NewManager ex_venue_no_state)
       (ex_live (Some 0)) (ex_signal 2 SignalShort 120) 120 ex_world))) 1)"
  by (simp add: Manager_HandleSignal_def Manager_ClosePosition_def Adapter_ClosePosition_def
        HyperliquidAdapter_ClosePosition_def Adapter_OpenPosition_def
        HyperliquidAdapter_OpenPosition_def parseOrderResponse_def adapterPosition_def
        live_defs world_defs ex_live_defs ex_venue_no_state_def ex_signal_def ex_config_def
        Let_def)

subsection \<open>The PnL of a live close\<close>

text \<open>
  In exact arithmetic the PnL that \<^verbatim>\<open>Manager.ClosePosition\<close> records when the
  adapter's close succeeds is the PnL that the backtester's \<^verbatim>\<open>closePosition\<close>
  computes for a position of the same side, entry price and size: both are
  size * entryPrice * pnlPercent.
\<close>

lemma live_PnL_is_backtest_PnL_exact:
  assumes "Position live = Some p" and "IsOpen (heap w p)"
    and "Side (heap w p) = ''long'' \<or> Side (heap w p) = ''short''"
    and "EntryPrice (heap w p) \<noteq> 0"
    and "fst (Adapter_ClosePosition pf (exchange m) (Symbol live) (Size (heap w p)) w) = None"
    and "Side q = Side (heap w p)" and "EntryPrice q = EntryPrice (heap w p)"
    and "Size q = Size (heap w p)"
    and "Backtester_closePosition candles q i exitPrice reason' = Inr q'"
  shows "PnL (heap (snd (Manager_ClosePosition pf m live exitPrice reason w)) p) = PnL q'
       \<and> PnL q' = Size q * EntryPrice q
                    * (if Side q = ''long'' then (exitPrice - EntryPrice q) / EntryPrice q
                       else (EntryPrice q - exitPrice) / EntryPrice q)"
proof -
  have lv: "PnL (heap (snd (Manager_ClosePosition pf m live exitPrice reason w)) p) =
           (if Side q = ''long'' then (exitPrice - EntryPrice q) * Size q
            else (EntryPrice q - exitPrice) * Size q)"
    using Manager_ClosePosition_closes(4) [OF assms(1,2,5), of exitPrice reason] assms(6-8)
    by simp
  have bt: "PnL q' = Size q * EntryPrice q
                * ((if Side q = ''long'' then exitPrice - EntryPrice q
                    else EntryPrice q - exitPrice) / EntryPrice q * 100 / 100)"
    using assms(9)
    by (auto simp: Backtester_closePosition_def Let_def split: if_splits)
  from assms(4,7) have nz: "EntryPrice q \<noteq> 0" by simp
  show ?thesis
    using lv bt nz by (simp split: if_splits)
qed

subsection \<open>Take profit and stop loss\<close>

lemma Manager_CheckTPSL_open:
  assumes "Position live = Some p" and "IsOpen (heap w p)"
  shows "Manager_CheckTPSL pf m live c w =
     (if TakeProfitPercent (Config live) > 0
         \<and> unrealizedPnLPercent (heap w p) c \<ge> TakeProfitPercent (Config live)
      then Manager_ClosePosition pf m live c ''Take Profit'' w
      else if StopLossPercent (Config live) > 0
         \<and> unrealizedPnLPercent (heap w p) c \<le> - StopLossPercent (Config live)
      then Manager_ClosePosition pf m live c ''Stop Loss'' w
      else (m, w))"
  using assms
  by (auto simp: Manager_CheckTPSL_def live_defs Let_def unrealizedPnLPercent_def)

lemma Manager_CheckTPSL_idle:
  assumes "Position live = None \<or> (\<exists>p. Position live = Some p \<and> \<not> IsOpen (heap w p))"
  shows "Manager_CheckTPSL pf m live c w = (m, w)"
  using assms by (auto simp: Manager_CheckTPSL_def live_defs)

text \<open>
  Claim C5. For every handle that holds an open long position entered at 100, with an
  adapter whose close succeeds: \<^verbatim>\<open>CheckTPSL\<close> with a take profit of 5 percent at the
  price 105.5 closes the position with the reason \<^verbatim>\<open>Take Profit\<close>; with a stop loss of
  5 percent at the price 94 it closes it with the reason \<^verbatim>\<open>Stop Loss\<close>; with both at
  5 percent at the price 102 it changes nothing. In every call, for any handle and
  price, \<^verbatim>\<open>CheckTPSL\<close> does nothing or is one call of \<^verbatim>\<open>ClosePosition\<close>, with one of
  the two reasons; take profit is decided first, so (for a non-zero entry price) it
  fires whenever its condition holds, and stop loss fires only when take profit does
  not.
\<close>

theorem C5_CheckTPSL:
  "(Position live = Some p \<and> IsOpen (heap w p) \<and> Side (heap w p) = ''long''
      \<and> EntryPrice (heap w p) = 100
      \<and> fst (Adapter_ClosePosition pf (exchange m) (Symbol live) (Size (heap w p)) w) = None \<longrightarrow>
      (TakeProfitPercent (Config live) = 5 \<longrightarrow>
         \<not> IsOpen (heap (snd (Manager_CheckTPSL pf m live 105.5 w)) p)
         \<and> ExitReason (heap (snd (Manager_CheckTPSL pf m live 105.5 w)) p) = ''Take Profit'')
      \<and> (StopLossPercent (Config live) = 5 \<longrightarrow>
         \<not> IsOpen (heap (snd (Manager_CheckTPSL pf m live 94 w)) p)
         \<and> ExitReason (heap (snd (Manager_CheckTPSL pf m live 94 w)) p) = ''Stop Loss'')
      \<and> (TakeProfitPercent (Config live) = 5 \<and> StopLossPercent (Config live) = 5 \<longrightarrow>
         Manager_CheckTPSL pf m live 102 w = (m, w)))
   \<and> (Manager_CheckTPSL pf m live c w = (m, w)
       \<or> Manager_CheckTPSL pf m live c w = Manager_ClosePosition pf m live c ''Take Profit'' w
       \<or> Manager_CheckTPSL pf m live c w = Manager_ClosePosition pf m live c ''Stop Loss'' w)
   \<and> (Position live = Some p \<and> IsOpen (heap w p) \<and> EntryPrice (heap w p) \<noteq> 0
        \<and> TakeProfitPercent (Config live) > 0
        \<and> unrealizedPnLPercent (heap w p) c \<ge> TakeProfitPercent (Config live) \<longrightarrow>
       Manager_CheckTPSL pf m live c w = Manager_ClosePosition pf m live c ''Take Profit'' w)
   \<and> (Position live = Some p \<and> IsOpen (heap w p) \<and> EntryPrice (heap w p) \<noteq> 0
        \<and> \<not> (TakeProfitPercent (Config live) > 0
              \<and> unrealizedPnLPercent (heap w p) c \<ge> TakeProfitPercent (Config live))
        \<and> StopLossPercent (Config live) > 0
        \<and> unrealizedPnLPercent (heap w p) c \<le> - StopLossPercent (Config live) \<longrightarrow>
       Manager_CheckTPSL pf m live c w = Manager_ClosePosition pf m live c ''Stop Loss'' w)"
proof (intro conjI impI)
  assume a: "Position live = Some p \<and> IsOpen (heap w p) \<and> Side (heap w p) = ''long''
      \<and> EntryPrice (heap w p) = 100
      \<and> fst (Adapter_ClosePosition pf (exchange m) (Symbol live) (Size (heap w p)) w) = None"
  then have o: "Position live = Some p" "IsOpen (heap w p)"
    and s: "fst (Adapter_ClosePosition pf (exchange m) (Symbol live) (Size (heap w p)) w) = None"
    and l: "Side (heap w p) = ''long''" "EntryPrice (heap w p) = 100"
    by simp_all
  note T = Manager_CheckTPSL_open [OF o]
  note C = Manager_ClosePosition_closes [OF o s]
  {
    assume tp: "TakeProfitPercent (Config live) = 5"
    have "Manager_CheckTPSL pf m live 105.5 w
            = Manager_ClosePosition pf m live 105.5 ''Take Profit'' w"
      by (simp add: T tp l unrealizedPnLPercent_def)
    then show "\<not> IsOpen (heap (snd (Manager_CheckTPSL pf m live 105.5 w)) p)"
      and "ExitReason (heap (snd (Manager_CheckTPSL pf m live 105.5 w)) p) = ''Take Profit''"
      by (simp_all add: C)
  }
  {
    assume sl: "StopLossPercent (Config live) = 5"
    have "Manager_CheckTPSL pf m live 94 w = Manager_ClosePosition pf m live 94 ''Stop Loss'' w"
      by (auto simp: T sl l unrealizedPnLPercent_def)
    then show "\<not> IsOpen (heap (snd (Manager_CheckTPSL pf m live 94 w)) p)"
      and "ExitReason (heap (snd (Manager_CheckTPSL pf m live 94 w)) p) = ''Stop Loss''"
      by (simp_all add: C)
  }
  {
    assume "TakeProfitPercent (Config live) = 5 \<and> StopLossPercent (Config live) = 5"
    then show "Manager_CheckTPSL pf m live 102 w = (m, w)"
      by (simp add: T l unrealizedPnLPercent_def)
  }
next
  show "Manager_CheckTPSL pf m live c w = (m, w)
       \<or> Manager_CheckTPSL pf m live c w = Manager_ClosePosition pf m live c ''Take Profit'' w
       \<or> Manager_CheckTPSL pf m live c w = Manager_ClosePosition pf m live c ''Stop Loss'' w"
  proof (cases "\<exists>q. Position live = Some q \<and> IsOpen (heap w q)")
    case True
    then obtain q where "Position live = Some q" "IsOpen (heap w q)" by blast
    then show ?thesis by (simp add: Manager_CheckTPSL_open)
  next
    case False
    then have "Position live = None \<or> (\<exists>p. Position live = Some p \<and> \<not> IsOpen (heap w p))"
      by (cases "Position live") auto
    then show ?thesis by (simp add: Manager_CheckTPSL_idle)
  qed
next
  assume "Position live = Some p \<and> IsOpen (heap w p) \<and> EntryPrice (heap w p) \<noteq> 0
        \<and> TakeProfitPercent (Config live) > 0
        \<and> unrealizedPnLPercent (heap w p) c \<ge> TakeProfitPercent (Config live)"
  then show "Manager_CheckTPSL pf m live c w
               = Manager_ClosePosition pf m live c ''Take Profit'' w"
    by (simp add: Manager_CheckTPSL_open)
next
  assume "Position live = Some p \<and> IsOpen (heap w p) \<and> EntryPrice (heap w p) \<noteq> 0
        \<and> \<not> (TakeProfitPercent (Config live) > 0
              \<and> unrealizedPnLPercent (heap w p) c \<ge> TakeProfitPercent (Config live))
        \<and> StopLossPercent (Config live) > 0
        \<and> unrealizedPnLPercent (heap w p) c \<le> - StopLossPercent (Config live)"
  then show "Manager_CheckTPSL pf m live c w = Manager_ClosePosition pf m live c ''Stop Loss'' w"
    by (auto simp: Manager_CheckTPSL_open split: if_splits)
qed

theorem C5_witness:
  "fst (Adapter_ClosePosition ex_parseFloat ex_mock_holding ''BTC'' 1 ex_world) = None
   \<and> ExitReason (heap (snd (Manager_CheckTPSL ex_parseFloat (NewManager ex_mock_holding)
         (ex_live (Some 0)) 105.5 ex_world)) 0) = ''Take Profit''
   \<and> ExitReason (heap (snd (Manager_CheckTPSL ex_parseFloat (NewManager ex_mock_holding)
         (ex_live (Some 0)) 94 ex_world)) 0) = ''Stop Loss''
   \<and> Manager_CheckTPSL ex_parseFloat (NewManager ex_mock_holding) (ex_live (Some 0)) 102 ex_world
       = (NewManager ex_mock_holding, ex_world)"
proof -
  have h: "Position (ex_live (Some 0)) = Some 0 \<and> IsOpen (heap ex_world 0)
           \<and> Side (heap ex_world 0) = ''long'' \<and> EntryPrice (heap ex_world 0) = 100
           \<and> fst (Adapter_ClosePosition ex_parseFloat (exchange (NewManager ex_mock_holding))
                 (Symbol (ex_live (Some 0))) (Size (heap ex_world 0)) ex_world) = None"
    using ex_mock_close by (simp add: ex_live_defs)
  have c: "TakeProfitPercent (Config (ex_live (Some 0))) = 5"
    "StopLossPercent (Config (ex_live (Some 0))) = 5"
    by (simp_all add: ex_live_def ex_config_def)
  from C5_CheckTPSL [of "ex_live (Some 0)" 0 ex_world ex_parseFloat
         "NewManager ex_mock_holding"] h c ex_mock_close
  show ?thesis by blast
qed

subsection \<open>Stopping a strategy\<close>

text \<open>
  Claim C9. When \<^verbatim>\<open>StopStrategy\<close> removes an instance that holds an open position, and
  the adapter's close succeeds, the position is closed with the reason
  \<^verbatim>\<open>Strategy Stopped\<close> at an exit price equal to its own entry price, so the PnL
  recorded is exactly 0. No market price enters the call.
\<close>

theorem C9_stop_closes_at_entry_price:
  assumes "strategies e ident = Some state" and "Position state = Some p"
    and "IsOpen (heap w p)" and "positionMgr e = Some mgr"
    and "fst (Adapter_ClosePosition pf (exchange mgr) (Symbol state) (Size (heap w p)) w) = None"
  shows "PnL (heap (snd (snd (StopStrategy pf e ident w))) p) = 0
       \<and> ExitReason (heap (snd (snd (StopStrategy pf e ident w))) p) = ''Strategy Stopped''
       \<and> ExitPrice (heap (snd (snd (StopStrategy pf e ident w))) p) = EntryPrice (heap w p)
       \<and> \<not> IsOpen (heap (snd (snd (StopStrategy pf e ident w))) p)"
proof -
  let ?state = "state\<lparr>IsRunning := False\<rparr>"
  have o: "Position ?state = Some p" using assms(2) by simp
  have s: "fst (Adapter_ClosePosition pf (exchange mgr) (Symbol ?state) (Size (heap w p)) w)
             = None"
    using assms(5) by simp
  have "snd (snd (StopStrategy pf e ident w)) =
          snd (Manager_ClosePosition pf mgr ?state (EntryPrice (heap w p))
                 ''Strategy Stopped'' w)"
    using assms(1-4) by (simp add: StopStrategy_def Let_def split: prod.splits)
  then show ?thesis
    using Manager_ClosePosition_closes [OF o assms(3) s, of "EntryPrice (heap w p)"
            "''Strategy Stopped''"]
    by simp
qed

theorem C9_witness:
  "fst (Adapter_ClosePosition ex_parseFloat ex_mock_holding ''BTC'' 1 ex_world) = None
   \<and> PnL (heap (snd (snd (StopStrategy ex_parseFloat (ex_engine ex_mock_holding) ''s1''
         ex_world))) 0) = 0
   \<and> ExitReason (heap (snd (snd (StopStrategy ex_parseFloat (ex_engine ex_mock_holding) ''s1''
         ex_world))) 0) = ''Strategy Stopped''
   \<and> ExitPrice (heap (snd (snd (StopStrategy ex_parseFloat (ex_engine ex_mock_holding) ''s1''
         ex_world))) 0) = 100"
proof -
  have 1: "strategies (ex_engine ex_mock_holding) ''s1'' = Some (ex_live (Some 0))"
    and 2: "Position (ex_live (Some 0)) = Some 0"
    and 3: "IsOpen (heap ex_world 0)"
    and 4: "positionMgr (ex_engine ex_mock_holding) = Some (NewManager ex_mock_holding)"
    by (simp_all add: ex_engine_def ex_live_defs)
  have 5: "fst (Adapter_ClosePosition ex_parseFloat (exchange (NewManager ex_mock_holding))
                 (Symbol (ex_live (Some 0))) (Size (heap ex_world 0)) ex_world) = None"
    using ex_mock_close by (simp add: ex_live_defs)
  from C9_stop_closes_at_entry_price [OF 1 2 3 4 5] ex_mock_close show ?thesis
    by (simp add: ex_world_def ex_open_long_def)
qed

subsection \<open>The entry price of a position opened on a signal\<close>

text \<open>Neither adapter returns a fill price: the position it hands out has entry price 0.\<close>

lemma Adapter_OpenPosition_no_fill_price:
  assumes "Adapter_OpenPosition a symb side sz lev w = (Inr newPos, a', w1)"
  shows "EntryPrice (heap w1 newPos) = 0"
  using assms
  by (cases a)
     (auto simp: Adapter_OpenPosition_def MockAdapter_OpenPosition_def
           HyperliquidAdapter_OpenPosition_def adapterPosition_def world_defs Let_def
           split: option.splits sum.splits prod.splits if_splits)

text \<open>
  Claim C2, as amended. For every handle, signal and price: whenever \<^verbatim>\<open>HandleSignal\<close>
  sets a new position on the handle, that position is the one a successful open of the
  adapter returned, the adapter returned it with entry price 0, and the entry price
  stored on it is the price passed to \<^verbatim>\<open>HandleSignal\<close>.
\<close>

theorem C2_entry_price_is_price_argument:
  assumes "Manager_HandleSignal pf m live signal price w = (m', live', w')"
    and "Position live' \<noteq> Position live"
  shows "\<exists>(m1::Manager) w1 side a1 w2 newPos.
           Adapter_OpenPosition (exchange m1) (Symbol live) side (PositionSize (Config live))
             (leverage m1) w1 = (Inr newPos, a1, w2)
           \<and> EntryPrice (heap w2 newPos) = 0
           \<and> Position live' = Some newPos
           \<and> EntryPrice (heap w' newPos) = price"
proof -
  from assms obtain m1 w1 side r a1 w2 where
    O: "Adapter_OpenPosition (exchange m1) (Symbol live) side (PositionSize (Config live))
          (leverage m1) w1 = (r, a1, w2)"
    and R: "(m', live', w') =
          (case r of Inl err \<Rightarrow> (m1\<lparr>exchange := a1\<rparr>, live, w2)
           | Inr newPos \<Rightarrow> (m1\<lparr>exchange := a1\<rparr>, SetPosition live (Some newPos),
                store_Position newPos (\<lambda>v. v\<lparr>EntryPrice := price\<rparr>) w2))"
    by (auto simp: Manager_HandleSignal_def live_defs Let_def
             split: if_splits option.splits prod.splits sum.splits)
  from R assms(2) obtain newPos where r: "r = Inr newPos"
    by (cases r) auto
  from O r have O': "Adapter_OpenPosition (exchange m1) (Symbol live) side
      (PositionSize (Config live)) (leverage m1) w1 = (Inr newPos, a1, w2)"
    by simp
  from R r have "Position live' = Some newPos"
    and "EntryPrice (heap w' newPos) = price"
    by (simp_all add: live_defs world_defs)
  moreover have "EntryPrice (heap w2 newPos) = 0"
    by (rule Adapter_OpenPosition_no_fill_price [OF O'])
  ultimately show ?thesis using O' by blast
qed

lemma ex_HandleSignal:
  "Manager_HandleSignal ex_parseFloat (NewManager ex_mock) (ex_live None)
     (ex_signal 2 SignalLong 120) 100 ex_world =
   (\<lparr>exchange = Mock \<lparr>positions = [''BTC'' \<mapsto> 1], balance = 1000,
                       address = ''mock-address''\<rparr>, leverage = 10\<rparr>,
    ex_live (Some 1),
    \<lparr>heap = (\<lambda>a. ex_open_long)(1 := (adapterPosition 5000 ''long'' 1)\<lparr>EntryPrice := 100\<rparr>),
     allocated = 2, clock = (\<lambda>n. 5000 + int n), clockReads = 1\<rparr>)"
  by (simp add: Manager_HandleSignal_def Adapter_OpenPosition_def MockAdapter_OpenPosition_def
        live_defs world_defs ex_live_defs ex_signal_def ex_config_def Let_def)

lemma ex_OpenPosition:
  "Adapter_OpenPosition ex_mock ''BTC'' ''long'' 1 10 ex_world =
   (Inr 1,
    Mock \<lparr>positions = [''BTC'' \<mapsto> 1], balance = 1000, address = ''mock-address''\<rparr>,
    \<lparr>heap = (\<lambda>a. ex_open_long)(1 := adapterPosition 5000 ''long'' 1),
     allocated = 2, clock = (\<lambda>n. 5000 + int n), clockReads = 1\<rparr>)"
  by (simp add: Adapter_OpenPosition_def MockAdapter_OpenPosition_def world_defs ex_live_defs
        Let_def)

theorem C2_witness:
  "Position (ex_live None) \<noteq> Some 1
   \<and> Position (fst (snd (Manager_HandleSignal ex_parseFloat (NewManager ex_mock) (ex_live None)
        (ex_signal 2 SignalLong 120) 100 ex_world))) = Some 1
   \<and> EntryPrice (heap (snd (snd (Manager_HandleSignal ex_parseFloat (NewManager ex_mock)
        (ex_live None) (ex_signal 2 SignalLong 120) 100 ex_world))) 1) = 100"
proof -
  have d: "Position (ex_live (Some 1)) \<noteq> Position (ex_live None)"
    by (simp add: ex_live_def)
  from C2_entry_price_is_price_argument [OF ex_HandleSignal d]
  have "EntryPrice (heap \<lparr>heap = (\<lambda>a. ex_open_long)
           (1 := (adapterPosition 5000 ''long'' 1)\<lparr>EntryPrice := 100\<rparr>),
         allocated = 2, clock = (\<lambda>n. 5000 + int n), clockReads = 1\<rparr> 1) = 100"
    by (auto simp: ex_live_def)
  then show ?thesis unfolding ex_HandleSignal by (simp add: ex_live_def)
qed

text \<open>
  Claim C2 as stated says that the stored entry price is the fill price that the
  adapter's open returned. The mock adapter returns the new position, at address 1,
  with entry price 0; \<^verbatim>\<open>HandleSignal\<close>, called with the price 100 on a long signal whose
  own price is 120, stores that position on the handle with entry price 100.
\<close>

theorem C2_counterexample:
  "fst (Adapter_OpenPosition ex_mock ''BTC'' ''long'' 1 10 ex_world) = Inr 1
   \<and> EntryPrice (heap (snd (snd (Adapter_OpenPosition ex_mock ''BTC'' ''long'' 1 10 ex_world)))
        1) = 0
   \<and> Position (fst (snd (Manager_HandleSignal ex_parseFloat (NewManager ex_mock) (ex_live None)
        (ex_signal 2 SignalLong 120) 100 ex_world))) = Some 1
   \<and> EntryPrice (heap (snd (snd (Manager_HandleSignal ex_parseFloat (NewManager ex_mock)
        (ex_live None) (ex_signal 2 SignalLong 120) 100 ex_world))) 1) = 100"
  unfolding ex_HandleSignal ex_OpenPosition by (simp add: ex_live_def adapterPosition_def)

section \<open>Properties of the float64 arithmetic\<close>

subsection \<open>Rounding\<close>


lemma of_int_bitlen_bounds:
  assumes "0 < a"
  shows "(2::rat) powi (bitlen a - 1) \<le> of_int a" and "of_int a < (2::rat) powi (bitlen a)"
proof -
  from assms have p: "1 \<le> bitlen a" by (auto simp: bitlen_alt_def)
  from bitlen_bounds [OF assms] have 1: "2 ^ nat (bitlen a - 1) \<le> a" and 2: "a < 2 ^ nat (bitlen a)"
    by simp_all
  from 1 have "(of_int (2 ^ nat (bitlen a - 1)) :: rat) \<le> of_int a" by (simp only: of_int_le_iff)
  then show "(2::rat) powi (bitlen a - 1) \<le> of_int a"
    using p by (simp add: power_int_def)
  from 2 have "(of_int a :: rat) < of_int (2 ^ nat (bitlen a))" by (simp only: of_int_less_iff)
  then show "of_int a < (2::rat) powi (bitlen a)"
    using p by (simp add: power_int_def)
qed

text \<open>\<open>ilog2\<close> is the exponent, and the only one.\<close>

lemma ilog2_bounds:
  assumes "0 < x"
  shows "2 powi (ilog2 x) \<le> x" and "x < 2 powi (ilog2 x + 1)"
proof -
  obtain a b where q: "quotient_of x = (a, b)" by (cases "quotient_of x")
  then have x: "x = of_int a / of_int b" and b: "0 < b"
    by (auto dest: quotient_of_div quotient_of_denom_pos)
  with assms have a: "0 < a" by (simp add: zero_less_divide_iff)
  note A = of_int_bitlen_bounds [OF a] and B = of_int_bitlen_bounds [OF b]
  let ?d = "bitlen a - bitlen b"
  have bpos: "(0::rat) < of_int b" using b by simp
  have lo: "2 powi (?d - 1) < x"
  proof -
    have "(2::rat) powi (?d - 1) * of_int b < 2 powi (?d - 1) * 2 powi (bitlen b)"
      using B(2) by (simp add: mult_strict_left_mono)
    also have "\<dots> = 2 powi (bitlen a - 1)"
      by (simp add: power_int_add [symmetric])
    also have "\<dots> \<le> of_int a" by (rule A(1))
    finally show ?thesis using bpos by (simp add: x pos_less_divide_eq)
  qed
  have hi: "x < 2 powi (?d + 1)"
  proof -
    have "of_int a < (2::rat) powi (bitlen a)" by (rule A(2))
    also have "\<dots> = 2 powi (?d + 1) * 2 powi (bitlen b - 1)"
      by (simp add: power_int_add [symmetric])
    also have "\<dots> \<le> 2 powi (?d + 1) * of_int b"
      using B(1) by (simp add: mult_left_mono)
    finally show ?thesis using bpos by (simp add: x pos_divide_less_eq)
  qed
  show "2 powi (ilog2 x) \<le> x"
    using lo by (auto simp: ilog2_def q Let_def)
  show "x < 2 powi (ilog2 x + 1)"
    using hi by (auto simp: ilog2_def q Let_def not_le)
qed

lemma ilog2_unique:
  assumes "0 < x" and "2 powi e \<le> x" and "x < 2 powi (e + 1)"
  shows "ilog2 x = e"
proof -
  note I = ilog2_bounds [OF assms(1)]
  have 1: "(2::rat) powi e < 2 powi (ilog2 x + 1)" using assms(2) I(2) by simp
  have 2: "(2::rat) powi (ilog2 x) < 2 powi (e + 1)" using assms(3) I(1) by simp
  have "e < ilog2 x + 1"
  proof (rule ccontr)
    assume "\<not> e < ilog2 x + 1"
    then have "(2::rat) powi (ilog2 x + 1) \<le> 2 powi e"
      by (intro power_int_increasing) simp_all
    with 1 show False by simp
  qed
  moreover have "ilog2 x < e + 1"
  proof (rule ccontr)
    assume "\<not> ilog2 x < e + 1"
    then have "(2::rat) powi (e + 1) \<le> 2 powi (ilog2 x)"
      by (intro power_int_increasing) simp_all
    with 2 show False by simp
  qed
  ultimately show ?thesis by simp
qed

text \<open>\<open>rne\<close> is within one half of its argument.\<close>

lemma rne_half: "\<bar>of_int (rne q) - q\<bar> \<le> 1 / 2"
proof -
  have "of_int \<lfloor>q\<rfloor> \<le> q" "q < of_int \<lfloor>q\<rfloor> + 1" by linarith+
  then show ?thesis by (auto simp: rne_def Let_def)
qed

lemma rne_unique:
  assumes "\<bar>q - of_int n\<bar> < 1 / 2"
  shows "rne q = n"
proof -
  from rne_half [of q] assms have "\<bar>(of_int (rne q) :: rat) - of_int n\<bar> < 1" by linarith
  then have "\<bar>(of_int (rne q - n) :: rat)\<bar> < 1" by simp
  then have "\<bar>rne q - n\<bar> < 1" by (metis of_int_abs of_int_less_1_iff)
  then show ?thesis by simp
qed

text \<open>
  Rounding a number that does not underflow changes it by at most \<open>2^-53\<close> of its
  magnitude.
\<close>

lemma round64_rel:
  assumes "normal64 x"
  shows "\<bar>round64 x - x\<bar> \<le> \<bar>x\<bar> / 2 ^ 53"
proof (cases "x = 0")
  case True
  then show ?thesis by (simp add: round64_def)
next
  case False
  then have pos: "0 < \<bar>x\<bar>" by simp
  note I = ilog2_bounds [OF pos]
  let ?e = "ilog2 \<bar>x\<bar>"
  from assms False have "2 powi (- 1022) \<le> \<bar>x\<bar>" by (simp add: normal64_def)
  with I(2) have "(2::rat) powi (- 1022) < 2 powi (?e + 1)" by simp
  have ge: "- 1022 \<le> ?e"
  proof (rule ccontr)
    assume "\<not> - 1022 \<le> ?e"
    then have "(2::rat) powi (?e + 1) \<le> 2 powi (- 1022)"
      by (intro power_int_increasing) simp_all
    with \<open>(2::rat) powi (- 1022) < 2 powi (?e + 1)\<close> show False by simp
  qed
  let ?ulp = "(2::rat) powi (?e - 52)"
  have ulp: "0 < ?ulp" by simp
  from ge False have r: "round64 x = of_int (rne (x / ?ulp)) * ?ulp"
    by (simp add: round64_def Let_def max_def)
  have "\<bar>round64 x - x\<bar> = \<bar>of_int (rne (x / ?ulp)) - x / ?ulp\<bar> * ?ulp"
  proof -
    have "round64 x - x = (of_int (rne (x / ?ulp)) - x / ?ulp) * ?ulp"
      using ulp by (simp add: r field_simps)
    then show ?thesis using ulp by (simp add: abs_mult)
  qed
  also have "\<dots> \<le> 1 / 2 * ?ulp"
    using rne_half [of "x / ?ulp"] ulp by (intro mult_right_mono) simp_all
  also have "\<dots> = 2 powi ?e / 2 ^ 53"
  proof -
    have "(2::rat) powi (?e - 52) = 2 powi ?e / 2 ^ 52"
      by (simp add: power_int_diff)
    then show ?thesis by simp
  qed
  also have "\<dots> \<le> \<bar>x\<bar> / 2 ^ 53"
    using I(1) by (simp add: divide_right_mono)
  finally show ?thesis .
qed

lemma f64_Some: "f64 x = Some y \<Longrightarrow> y = round64 x"
  by (auto simp: f64_def Let_def split: if_splits)

lemma f64_round64:
  assumes "round64 x = y" and "\<bar>y\<bar> < 2 ^ 1024"
  shows "f64 x = Some y"
  using assms by (simp add: f64_def)

subsection \<open>Relative errors along a computation\<close>


lemma rel_within_exact: "rel_within 1 t t"
  by (simp add: rel_within_def)

lemma rel_within_round:
  assumes "rel_within K a t" and "1 \<le> K" and "normal64 a"
  shows "rel_within (K * (1 + 1 / 2 ^ 53)) (round64 a) t"
proof -
  let ?u = "1 / 2 ^ 53 :: rat"
  from assms(1) have at: "\<bar>a - t\<bar> \<le> (K - 1) * \<bar>t\<bar>" by (simp add: rel_within_def)
  have "\<bar>a\<bar> \<le> \<bar>t\<bar> + \<bar>a - t\<bar>" by simp
  with at have a: "\<bar>a\<bar> \<le> K * \<bar>t\<bar>" by (simp add: algebra_simps)
  have "\<bar>round64 a - a\<bar> \<le> ?u * \<bar>a\<bar>"
    using round64_rel [OF assms(3)] by simp
  also have "\<dots> \<le> ?u * (K * \<bar>t\<bar>)"
    using a by (intro mult_left_mono) simp_all
  finally have r: "\<bar>round64 a - a\<bar> \<le> ?u * (K * \<bar>t\<bar>)" .
  have "\<bar>round64 a - t\<bar> \<le> \<bar>round64 a - a\<bar> + \<bar>a - t\<bar>" by simp
  with r at have "\<bar>round64 a - t\<bar> \<le> ?u * (K * \<bar>t\<bar>) + (K - 1) * \<bar>t\<bar>" by linarith
  also have "\<dots> = (K * (1 + ?u) - 1) * \<bar>t\<bar>" by (simp add: algebra_simps)
  finally show ?thesis by (simp add: rel_within_def)
qed

lemma rel_within_mult:
  assumes "rel_within J a s" and "rel_within K b t" and "1 \<le> J" and "1 \<le> K"
  shows "rel_within (J * K) (a * b) (s * t)"
proof -
  from assms(1) have as: "\<bar>a - s\<bar> \<le> (J - 1) * \<bar>s\<bar>" by (simp add: rel_within_def)
  from assms(2) have bt: "\<bar>b - t\<bar> \<le> (K - 1) * \<bar>t\<bar>" by (simp add: rel_within_def)
  have "\<bar>b\<bar> \<le> \<bar>t\<bar> + \<bar>b - t\<bar>" by simp
  with bt have b: "\<bar>b\<bar> \<le> K * \<bar>t\<bar>" by (simp add: algebra_simps)
  have "a * b - s * t = (a - s) * b + s * (b - t)" by (simp add: algebra_simps)
  then have "\<bar>a * b - s * t\<bar> \<le> \<bar>a - s\<bar> * \<bar>b\<bar> + \<bar>s\<bar> * \<bar>b - t\<bar>"
    by (metis abs_mult abs_triangle_ineq)
  also have "\<dots> \<le> ((J - 1) * \<bar>s\<bar>) * (K * \<bar>t\<bar>) + \<bar>s\<bar> * ((K - 1) * \<bar>t\<bar>)"
    using as b bt assms(3,4)
    by (intro add_mono mult_mono mult_left_mono) simp_all
  also have "\<dots> = (J * K - 1) * \<bar>s * t\<bar>" by (simp add: algebra_simps abs_mult)
  finally show ?thesis by (simp add: rel_within_def)
qed

lemma rel_within_scale:
  assumes "rel_within K a t"
  shows "rel_within K (a * k) (t * k)" and "rel_within K (a / k) (t / k)"
proof -
  from assms have at: "\<bar>a - t\<bar> \<le> (K - 1) * \<bar>t\<bar>" by (simp add: rel_within_def)
  have "\<bar>a * k - t * k\<bar> = \<bar>a - t\<bar> * \<bar>k\<bar>" by (simp add: abs_mult left_diff_distrib [symmetric])
  also have "\<dots> \<le> (K - 1) * \<bar>t\<bar> * \<bar>k\<bar>" using at by (intro mult_right_mono) simp_all
  finally show "rel_within K (a * k) (t * k)" by (simp add: rel_within_def abs_mult algebra_simps)
  have "\<bar>a / k - t / k\<bar> = \<bar>a - t\<bar> / \<bar>k\<bar>" by (simp add: diff_divide_distrib [symmetric])
  also have "\<dots> \<le> (K - 1) * \<bar>t\<bar> / \<bar>k\<bar>" using at by (intro divide_right_mono) simp_all
  finally show "rel_within K (a / k) (t / k)" by (simp add: rel_within_def)
qed

subsection \<open>The two PnL computations\<close>


lemma PnL_float64_within_rounding:
  assumes B: "Backtester_closePosition_PnL_float64 side entryPrice exitPrice size' = Some b"
    and L: "Manager_ClosePosition_PnL_float64 side entryPrice exitPrice size' = Some l"
    and N: "list_all normal64 (PnL_rounded_values side entryPrice exitPrice size')"
  shows "\<bar>b - l\<bar> \<le> \<bar>l\<bar> / 2 ^ 50"
proof -
  let ?u = "1 + 1 / 2 ^ 53 :: rat"
  define d where "d = round64 (if side = ''long'' then exitPrice - entryPrice
                               else entryPrice - exitPrice)"
  define q where "q = round64 (d / entryPrice)"
  define pct where "pct = round64 (q * 100)"
  define c where "c = round64 (size' * entryPrice)"
  define r where "r = round64 (pct / 100)"
  from B have e: "entryPrice \<noteq> 0" and b: "b = round64 (c * r)"
    by (auto simp: Backtester_closePosition_PnL_float64_def f64_sub_def f64_mul_def f64_div_def
          d_def q_def pct_def c_def r_def
          split: bind_splits if_splits dest!: f64_Some)
  from L have l: "l = round64 (d * size')"
    by (auto simp: Manager_ClosePosition_PnL_float64_def f64_sub_def f64_mul_def d_def
          split: bind_splits if_splits dest!: f64_Some)
  from N have n: "normal64 (d / entryPrice)" "normal64 (q * 100)" "normal64 (size' * entryPrice)"
    "normal64 (pct / 100)" "normal64 (c * r)" "normal64 (d * size')"
    by (simp_all add: PnL_rounded_values_def Let_def d_def q_def pct_def c_def r_def)
  have "rel_within (1 * ?u) q (d / entryPrice)"
    unfolding q_def by (rule rel_within_round [OF rel_within_exact _ n(1)]) simp
  then have "rel_within (1 * ?u) (q * 100) (d / entryPrice * 100)"
    by (rule rel_within_scale)
  then have "rel_within (1 * ?u * ?u) pct (d / entryPrice * 100)"
    unfolding pct_def by (rule rel_within_round [OF _ _ n(2)]) simp
  then have "rel_within (1 * ?u * ?u) (pct / 100) (d / entryPrice * 100 / 100)"
    by (rule rel_within_scale)
  then have R: "rel_within (1 * ?u * ?u * ?u) r (d / entryPrice * 100 / 100)"
    unfolding r_def by (rule rel_within_round [OF _ _ n(4)]) simp
  have C: "rel_within (1 * ?u) c (size' * entryPrice)"
    unfolding c_def by (rule rel_within_round [OF rel_within_exact _ n(3)]) simp
  have "rel_within (1 * ?u * (1 * ?u * ?u * ?u)) (c * r)
          (size' * entryPrice * (d / entryPrice * 100 / 100))"
    by (rule rel_within_mult [OF C R]) simp_all
  then have "rel_within (1 * ?u * (1 * ?u * ?u * ?u) * ?u) b
          (size' * entryPrice * (d / entryPrice * 100 / 100))"
    unfolding b by (rule rel_within_round [OF _ _ n(5)]) simp
  moreover have "size' * entryPrice * (d / entryPrice * 100 / 100) = d * size'"
    using e by simp
  ultimately have bT: "\<bar>b - d * size'\<bar> \<le> (1 * ?u * (1 * ?u * ?u * ?u) * ?u - 1) * \<bar>d * size'\<bar>"
    by (simp only: rel_within_def)
  have "rel_within (1 * ?u) l (d * size')"
    unfolding l by (rule rel_within_round [OF rel_within_exact _ n(6)]) simp
  then have lT: "\<bar>l - d * size'\<bar> \<le> (1 * ?u - 1) * \<bar>d * size'\<bar>"
    by (simp only: rel_within_def)
  let ?T = "\<bar>d * size'\<bar>"
  have k5: "1 * ?u * (1 * ?u * ?u * ?u) * ?u - 1 \<le> 6 / 2 ^ 53" by simp
  have bT': "\<bar>b - d * size'\<bar> \<le> 6 / 2 ^ 53 * ?T"
  proof -
    have "(1 * ?u * (1 * ?u * ?u * ?u) * ?u - 1) * ?T \<le> 6 / 2 ^ 53 * ?T"
      using k5 by (intro mult_right_mono) simp_all
    with bT show ?thesis by linarith
  qed
  from lT have lT': "\<bar>l - d * size'\<bar> \<le> 1 / 2 ^ 53 * ?T" by simp
  have "?T \<le> \<bar>l\<bar> + \<bar>l - d * size'\<bar>" by (simp add: abs_le_iff) linarith
  with lT' have T: "(1 - 1 / 2 ^ 53) * ?T \<le> \<bar>l\<bar>" by (simp add: algebra_simps)
  have "\<bar>b - l\<bar> \<le> \<bar>b - d * size'\<bar> + \<bar>l - d * size'\<bar>" by linarith
  with bT' lT' have "\<bar>b - l\<bar> \<le> 7 / 2 ^ 53 * ?T" by (simp add: algebra_simps)
  also have "\<dots> \<le> (1 - 1 / 2 ^ 53) / 2 ^ 50 * ?T"
    by (intro mult_right_mono) simp_all
  also have "\<dots> = (1 - 1 / 2 ^ 53) * ?T / 2 ^ 50"
    by simp
  also have "\<dots> \<le> \<bar>l\<bar> / 2 ^ 50"
    using T by (intro divide_right_mono) simp_all
  finally show ?thesis .
qed

text \<open>
  A long position entered at 3 and closed at 4 with size 1, operation by operation: the
  backtester computes 1/3, rounds it, multiplies by 100, divides by 100 and multiplies
  by 3, and ends one unit in the last place below 1; the manager computes 1.
\<close>

lemma ex_f64_sub: "f64_sub 4 3 = Some 1"
proof -
  have "round64 (4 - 3) = 1" by code_simp
  then show ?thesis unfolding f64_sub_def by (rule f64_round64) simp
qed

lemma ex_f64_div: "f64_div 1 3 = Some (6004799503160661 / 18014398509481984)"
proof -
  have "round64 (1 / 3) = 6004799503160661 / 18014398509481984" by code_simp
  then have "f64 (1 / 3) = Some (6004799503160661 / 18014398509481984)"
    by (rule f64_round64) simp
  then show ?thesis by (simp add: f64_div_def)
qed

lemma ex_f64_mul_100:
  "f64_mul (6004799503160661 / 18014398509481984) 100 = Some (2345624805922133 / 70368744177664)"
proof -
  have "round64 (6004799503160661 / 18014398509481984 * 100) = 2345624805922133 / 70368744177664"
    by code_simp
  then show ?thesis unfolding f64_mul_def by (rule f64_round64) simp
qed

lemma ex_f64_mul_capital: "f64_mul 1 3 = Some 3"
proof -
  have "round64 (1 * 3) = 3" by code_simp
  then show ?thesis unfolding f64_mul_def by (rule f64_round64) simp
qed

lemma ex_f64_div_100:
  "f64_div (2345624805922133 / 70368744177664) 100 = Some (1501199875790165 / 4503599627370496)"
proof -
  have "round64 (2345624805922133 / 70368744177664 / 100) = 1501199875790165 / 4503599627370496"
    by code_simp
  then have "f64 (2345624805922133 / 70368744177664 / 100) = Some (1501199875790165 / 4503599627370496)"
    by (rule f64_round64) simp
  then show ?thesis by (simp add: f64_div_def)
qed

lemma ex_f64_mul_PnL:
  "f64_mul 3 (1501199875790165 / 4503599627370496) = Some (4503599627370495 / 4503599627370496)"
proof -
  have "round64 (3 * (1501199875790165 / 4503599627370496)) = 4503599627370495 / 4503599627370496"
    by code_simp
  then show ?thesis unfolding f64_mul_def by (rule f64_round64) simp
qed

lemma ex_f64_mul_live: "f64_mul 1 1 = Some 1"
proof -
  have "round64 (1 * 1) = 1" by code_simp
  then show ?thesis unfolding f64_mul_def by (rule f64_round64) simp
qed

lemma ex_backtest_PnL_float64:
  "Backtester_closePosition_PnL_float64 ''long'' 3 4 1 = Some (4503599627370495 / 4503599627370496)"
  by (simp add: Backtester_closePosition_PnL_float64_def ex_f64_sub ex_f64_div ex_f64_mul_100
        ex_f64_mul_capital ex_f64_div_100 ex_f64_mul_PnL)

lemma ex_live_PnL_float64: "Manager_ClosePosition_PnL_float64 ''long'' 3 4 1 = Some 1"
  by (simp add: Manager_ClosePosition_PnL_float64_def ex_f64_sub ex_f64_mul_live)

lemma ex_rounded_values:
  "PnL_rounded_values ''long'' 3 4 1 =
     [1 / 3, 150119987579016525 / 4503599627370496, 3, 2345624805922133 / 7036874417766400,
      4503599627370495 / 4503599627370496, 1]"
  by code_simp

lemma ex_normal: "list_all normal64 (PnL_rounded_values ''long'' 3 4 1)"
  unfolding ex_rounded_values by (simp add: normal64_def power_int_minus)
text \<open>
  Claim C3, as amended. For every open position with side \<^verbatim>\<open>long\<close> or \<^verbatim>\<open>short\<close> and
  non-zero entry price, and every exit price: in exact arithmetic the PnL that
  \<^verbatim>\<open>Manager.ClosePosition\<close> records when the adapter's close succeeds equals the PnL
  that the backtester's \<^verbatim>\<open>closePosition\<close> computes for the same side, entry price,
  exit price and size, and both are size * entryPrice * pnlPercent, where pnlPercent is
  (exitPrice - entryPrice) / entryPrice for a long and (entryPrice - exitPrice) /
  entryPrice for a short. Computed in \<^verbatim>\<open>float64\<close>, as the code does, the two results
  are equal up to rounding only: for every side, entry price, exit price and size for
  which both results are finite and no quotient or product underflows, they differ by
  at most \<open>2^-50\<close> of the magnitude of the manager's result.
\<close>

theorem C3_PnL_equal_up_to_rounding:
  "(Position live = Some p \<and> IsOpen (heap w p)
      \<and> (Side (heap w p) = ''long'' \<or> Side (heap w p) = ''short'')
      \<and> EntryPrice (heap w p) \<noteq> 0
      \<and> fst (Adapter_ClosePosition pf (exchange m) (Symbol live) (Size (heap w p)) w) = None
      \<and> Side q = Side (heap w p) \<and> EntryPrice q = EntryPrice (heap w p)
      \<and> Size q = Size (heap w p)
      \<and> Backtester_closePosition candles q i exitPrice reason' = Inr q' \<longrightarrow>
      PnL (heap (snd (Manager_ClosePosition pf m live exitPrice reason w)) p) = PnL q'
      \<and> PnL q' = Size q * EntryPrice q
                   * (if Side q = ''long'' then (exitPrice - EntryPrice q) / EntryPrice q
                      else (EntryPrice q - exitPrice) / EntryPrice q))
   \<and> (Backtester_closePosition_PnL_float64 side entryPrice price size' = Some b
      \<and> Manager_ClosePosition_PnL_float64 side entryPrice price size' = Some l
      \<and> list_all normal64 (PnL_rounded_values side entryPrice price size') \<longrightarrow>
      \<bar>b - l\<bar> \<le> \<bar>l\<bar> / 2 ^ 50)"
proof (intro conjI impI)
  assume a: "Position live = Some p \<and> IsOpen (heap w p)
      \<and> (Side (heap w p) = ''long'' \<or> Side (heap w p) = ''short'')
      \<and> EntryPrice (heap w p) \<noteq> 0
      \<and> fst (Adapter_ClosePosition pf (exchange m) (Symbol live) (Size (heap w p)) w) = None
      \<and> Side q = Side (heap w p) \<and> EntryPrice q = EntryPrice (heap w p)
      \<and> Size q = Size (heap w p)
      \<and> Backtester_closePosition candles q i exitPrice reason' = Inr q'"
  then have h: "Position live = Some p" "IsOpen (heap w p)"
    "Side (heap w p) = ''long'' \<or> Side (heap w p) = ''short''"
    "EntryPrice (heap w p) \<noteq> 0"
    "fst (Adapter_ClosePosition pf (exchange m) (Symbol live) (Size (heap w p)) w) = None"
    "Side q = Side (heap w p)" "EntryPrice q = EntryPrice (heap w p)"
    "Size q = Size (heap w p)"
    "Backtester_closePosition candles q i exitPrice reason' = Inr q'"
    by simp_all
  note E = live_PnL_is_backtest_PnL_exact [OF h, of reason]
  from E show "PnL (heap (snd (Manager_ClosePosition pf m live exitPrice reason w)) p) = PnL q'"
    by (rule conjunct1)
  from E show "PnL q' = Size q * EntryPrice q
                   * (if Side q = ''long'' then (exitPrice - EntryPrice q) / EntryPrice q
                      else (EntryPrice q - exitPrice) / EntryPrice q)"
    by (rule conjunct2)
next
  assume "Backtester_closePosition_PnL_float64 side entryPrice price size' = Some b
      \<and> Manager_ClosePosition_PnL_float64 side entryPrice price size' = Some l
      \<and> list_all normal64 (PnL_rounded_values side entryPrice price size')"
  then show "\<bar>b - l\<bar> \<le> \<bar>l\<bar> / 2 ^ 50"
    using PnL_float64_within_rounding by blast
qed

theorem C3_witness:
  "fst (Adapter_ClosePosition ex_parseFloat ex_mock_holding ''BTC'' 1 ex_world) = None
   \<and> PnL (heap (snd (Manager_ClosePosition ex_parseFloat (NewManager ex_mock_holding)
         (ex_live (Some 0)) 110 ''Trend Reversal'' ex_world)) 0) = 10
   \<and> map PnL (case Backtester_closePosition ex_candles ex_open_long 1 110 ''Trend Reversal'' of
                 Inl e \<Rightarrow> [] | Inr q' \<Rightarrow> [q']) = [10]
   \<and> Backtester_closePosition_PnL_float64 ''long'' 3 4 1
       = Some (4503599627370495 / 4503599627370496)
   \<and> Manager_ClosePosition_PnL_float64 ''long'' 3 4 1 = Some 1
   \<and> list_all normal64 (PnL_rounded_values ''long'' 3 4 1)
   \<and> \<bar>4503599627370495 / 4503599627370496 - 1\<bar> \<le> \<bar>1 :: rat\<bar> / 2 ^ 50"
proof -
  have 9: "Backtester_closePosition ex_candles ex_open_long 1 110 ''Trend Reversal'' =
             Inr (ex_open_long\<lparr>ExitIndex := 1, ExitPrice := 110, ExitTime := 2000,
                   IsOpen := False, ExitReason := ''Trend Reversal'', PnLPercentage := 10,
                   PnL := 10\<rparr>)"
    by (simp add: Backtester_closePosition_def ex_candles_def ex_open_long_def)
  have h: "Position (ex_live (Some 0)) = Some 0 \<and> IsOpen (heap ex_world 0)
      \<and> (Side (heap ex_world 0) = ''long'' \<or> Side (heap ex_world 0) = ''short'')
      \<and> EntryPrice (heap ex_world 0) \<noteq> 0
      \<and> fst (Adapter_ClosePosition ex_parseFloat (exchange (NewManager ex_mock_holding))
            (Symbol (ex_live (Some 0))) (Size (heap ex_world 0)) ex_world) = None
      \<and> Side ex_open_long = Side (heap ex_world 0)
      \<and> EntryPrice ex_open_long = EntryPrice (heap ex_world 0)
      \<and> Size ex_open_long = Size (heap ex_world 0)
      \<and> Backtester_closePosition ex_candles ex_open_long 1 110 ''Trend Reversal'' =
             Inr (ex_open_long\<lparr>ExitIndex := 1, ExitPrice := 110, ExitTime := 2000,
                   IsOpen := False, ExitReason := ''Trend Reversal'', PnLPercentage := 10,
                   PnL := 10\<rparr>)"
    using ex_mock_close 9 by (simp add: ex_live_defs)
  have f: "Backtester_closePosition_PnL_float64 ''long'' 3 4 1
             = Some (4503599627370495 / 4503599627370496)
      \<and> Manager_ClosePosition_PnL_float64 ''long'' 3 4 1 = Some 1
      \<and> list_all normal64 (PnL_rounded_values ''long'' 3 4 1)"
    using ex_backtest_PnL_float64 ex_live_PnL_float64 ex_normal by simp
  note T = C3_PnL_equal_up_to_rounding [where live = "ex_live (Some 0)" and p = 0
      and w = ex_world and pf = ex_parseFloat and m = "NewManager ex_mock_holding"
      and q = ex_open_long and candles = ex_candles and i = 1 and exitPrice = 110
      and reason' = "''Trend Reversal''" and reason = "''Trend Reversal''"
      and q' = "ex_open_long\<lparr>ExitIndex := 1, ExitPrice := 110, ExitTime := 2000,
                   IsOpen := False, ExitReason := ''Trend Reversal'', PnLPercentage := 10,
                   PnL := 10\<rparr>"
      and side = "''long''" and entryPrice = 3 and price = 4 and size' = 1
      and b = "4503599627370495 / 4503599627370496" and l = 1]
  from T h have "PnL (heap (snd (Manager_ClosePosition ex_parseFloat
      (NewManager ex_mock_holding) (ex_live (Some 0)) 110 ''Trend Reversal'' ex_world)) 0) = 10"
    by simp
  moreover from T f have "\<bar>4503599627370495 / 4503599627370496 - 1\<bar> \<le> \<bar>1 :: rat\<bar> / 2 ^ 50"
    by blast
  ultimately show ?thesis using f 9 ex_mock_close by simp
qed

text \<open>
  Claim C3 as stated says that the two results are equal. In \<^verbatim>\<open>float64\<close> they are not:
  for a long position entered at 3 and closed at 4 with size 1 the backtester's PnL is
  \<open>1 - 2^-52\<close>, printed 0.9999999999999998, and the manager's PnL is 1.
\<close>

theorem C3_counterexample:
  "Backtester_closePosition_PnL_float64 ''long'' 3 4 1 = Some (1 - 1 / 2 ^ 52)
   \<and> Manager_ClosePosition_PnL_float64 ''long'' 3 4 1 = Some 1"
  by (simp add: ex_backtest_PnL_float64 ex_live_PnL_float64)

end
